theory Spec2Isabelle
  imports Complex_Main "HOL-Library.Sublist"
begin

section \<open>JSON values and the JavaScript operations the server applies to them\<close>

text \<open>
  Every value the server handles comes out of \<^verbatim>\<open>JSON.parse\<close>: a request body (through
  \<^verbatim>\<open>express.json()\<close>), the content of a data file, or the blob downloaded from the
  remote bucket. An object is a finite map from property names to values, so equality of
  \<open>json\<close> values is deep equality. Numbers are the rationals that JSON number
  literals denote; the IEEE artefacts of a JavaScript number (negative zero, overflow to
  infinity) are outside this model. JavaScript's \<^verbatim>\<open>undefined\<close> is \<open>None\<close> of
  \<open>json option\<close>.
\<close>

datatype json =
    JNull
  | JBool bool
  | JNum rat
  | JStr string
  | JArr "json list"
  | JObj "string \<Rightarrow> json option"

text \<open>What a \<^verbatim>\<open>try\<close> block of the server can catch.\<close>

datatype exn =
    FsError string   \<comment> \<open>a file-system error; the string is its \<^verbatim>\<open>code\<close>, such as ENOENT\<close>
  | SyntaxError      \<comment> \<open>thrown by \<^verbatim>\<open>JSON.parse\<close>; it has no \<^verbatim>\<open>code\<close>\<close>
  | TypeError        \<comment> \<open>a property read on null or undefined, a call of a missing method\<close>

text \<open>The \<^verbatim>\<open>code\<close> property of a caught error.\<close>

fun error_code :: "exn \<Rightarrow> string option" where
  "error_code (FsError c) = Some c"
| "error_code SyntaxError = None"
| "error_code TypeError = None"

text \<open>Truthiness, as \<^verbatim>\<open>if (x)\<close> and \<^verbatim>\<open>x || y\<close> test it.\<close>

fun truthy :: "json \<Rightarrow> bool" where
  "truthy JNull = False"
| "truthy (JBool b) = b"
| "truthy (JNum n) = (n \<noteq> 0)"
| "truthy (JStr s) = (s \<noteq> [])"
| "truthy (JArr xs) = True"
| "truthy (JObj m) = True"

fun truthy_opt :: "json option \<Rightarrow> bool" where
  "truthy_opt None = False"
| "truthy_opt (Some v) = truthy v"

text \<open>
  A property read \<^verbatim>\<open>v.k\<close>, for the names the server reads (\<^verbatim>\<open>id\<close>, \<^verbatim>\<open>date\<close>,
  \<^verbatim>\<open>fee\<close>, \<^verbatim>\<open>credentials\<close>, \<^verbatim>\<open>username\<close>, \<^verbatim>\<open>password\<close> and the four snapshot
  fields): none of them is a member of a prototype, so only an object can have one, a read
  on any other value but null gives undefined, and a read on null or undefined throws.
\<close>

fun get_prop :: "json \<Rightarrow> string \<Rightarrow> exn + json option" where
  "get_prop JNull k = Inl TypeError"
| "get_prop (JObj m) k = Inr (m k)"
| "get_prop v k = Inr None"

fun get_prop_opt :: "json option \<Rightarrow> string \<Rightarrow> exn + json option" where
  "get_prop_opt None k = Inl TypeError"
| "get_prop_opt (Some v) k = get_prop v k"

text \<open>
  Strict equality \<^verbatim>\<open>a === b\<close> of two values that come from different parses (a stored
  document against a request body or a route parameter): two primitives are equal when
  they are the same value, undefined equals undefined only, and an array or object is
  never identical to one from another parse.
\<close>

fun is_primitive :: "json \<Rightarrow> bool" where
  "is_primitive (JArr xs) = False"
| "is_primitive (JObj m) = False"
| "is_primitive v = True"

definition strict_eq :: "json option \<Rightarrow> json option \<Rightarrow> bool" where
  "strict_eq a b =
     (case a of
        None \<Rightarrow> b = None
      | Some x \<Rightarrow> is_primitive x \<and> b = Some x)"

text \<open>
  \<^verbatim>\<open>xs.findIndex(p)\<close>: the index of the first element that satisfies \<open>p\<close>, \<open>None\<close>
  for JavaScript's \<open>-1\<close>. The callback runs on the elements in order and the
  search stops at the first hit, so an exception of the callback is raised only when no
  earlier element matched.
\<close>

fun findIndex :: "(json \<Rightarrow> exn + bool) \<Rightarrow> json list \<Rightarrow> exn + nat option" where
  "findIndex p [] = Inr None"
| "findIndex p (x # xs) =
     (case p x of
        Inl e \<Rightarrow> Inl e
      | Inr True \<Rightarrow> Inr (Some 0)
      | Inr False \<Rightarrow>
          (case findIndex p xs of
             Inl e \<Rightarrow> Inl e
           | Inr None \<Rightarrow> Inr None
           | Inr (Some i) \<Rightarrow> Inr (Some (Suc i))))"

text \<open>
  The receiver of an array method (\<^verbatim>\<open>vehicles.findIndex\<close>): on a document that is not an
  array the method is missing (or the receiver is null) and the call throws.
\<close>

fun as_array :: "json \<Rightarrow> exn + json list" where
  "as_array (JArr xs) = Inr xs"
| "as_array v = Inl TypeError"

text \<open>
  The own enumerable properties that an object spread \<^verbatim>\<open>{ ...v }\<close> copies: all of an
  object's, the indices of an array, the indices of a string (one character each), and
  nothing of null, a boolean or a number.
\<close>

definition digit :: "nat \<Rightarrow> char" where
  "digit n = ''0123456789'' ! n"

fun show_nat :: "nat \<Rightarrow> string" where
  "show_nat n =
     (if n < 10 then [digit n]
      else show_nat (n div 10) @ [digit (n mod 10)])"

declare show_nat.simps [simp del]

definition index_props :: "json list \<Rightarrow> (string \<Rightarrow> json option)" where
  "index_props xs = map_of (zip (map show_nat [0 ..< length xs]) xs)"

fun own_props :: "json \<Rightarrow> (string \<Rightarrow> json option)" where
  "own_props (JObj m) = m"
| "own_props (JArr xs) = index_props xs"
| "own_props (JStr s) = index_props (map (\<lambda>c. JStr [c]) s)"
| "own_props v = Map.empty"

section \<open>The Document Store\<close>

text \<open>
  The data directory is a map from file names to nodes. A regular file holds either JSON
  text, represented by the value \<^verbatim>\<open>JSON.parse\<close> returns for it, or text that
  \<^verbatim>\<open>JSON.parse\<close> rejects. \<^verbatim>\<open>JSON.stringify\<close> of a \<open>json\<close> value is text that parses
  back to that value, so \<open>writeJsonFile\<close> stores \<open>Text data\<close>. A \<open>Faulty\<close> node
  stands for a path on which \<^verbatim>\<open>fs.readFile\<close> and \<^verbatim>\<open>fs.writeFile\<close> fail with the
  given error code (a directory in the file's place, missing permissions); a name
  outside the map's domain is a file that does not exist (\<^verbatim>\<open>fs.readFile\<close> fails with
  ENOENT, \<^verbatim>\<open>fs.writeFile\<close> creates it).
\<close>

datatype content = Text json | Garbled

datatype node = Present content | Faulty string

type_synonym disk = "string \<Rightarrow> node option"

definition VEHICLES_FILE :: string where
  "VEHICLES_FILE = ''vehicles.json''"

definition PERMANENT_CLIENTS_FILE :: string where
  "PERMANENT_CLIENTS_FILE = ''permanent-clients.json''"

definition SETTINGS_FILE :: string where
  "SETTINGS_FILE = ''settings.json''"

definition DAILY_STATS_FILE :: string where
  "DAILY_STATS_FILE = ''daily-stats.json''"

definition BACKUP_FILE :: string where
  "BACKUP_FILE = ''backup.json''"

definition fs_readFile :: "disk \<Rightarrow> string \<Rightarrow> exn + content" where
  "fs_readFile d p =
     (case d p of
        None \<Rightarrow> Inl (FsError ''ENOENT'')
      | Some (Faulty c) \<Rightarrow> Inl (FsError c)
      | Some (Present f) \<Rightarrow> Inr f)"

definition JSON_parse :: "content \<Rightarrow> exn + json" where
  "JSON_parse f = (case f of Text v \<Rightarrow> Inr v | Garbled \<Rightarrow> Inl SyntaxError)"

text \<open>
  \<^verbatim>\<open>writeJsonFile(filePath, data)\<close>: the outcome and the directory afterwards. A failed
  write leaves the directory as it was.
\<close>

definition writeJsonFile :: "disk \<Rightarrow> string \<Rightarrow> json \<Rightarrow> (exn + unit) \<times> disk" where
  "writeJsonFile d p v =
     (case d p of
        Some (Faulty c) \<Rightarrow> (Inl (FsError c), d)
      | _ \<Rightarrow> (Inr (), d(p \<mapsto> Present (Text v))))"

text \<open>
  \<^verbatim>\<open>readJsonFile(filePath, defaultValue)\<close>: the \<^verbatim>\<open>try\<close> block reads and parses; an
  error whose code is ENOENT writes the default and returns it, any other error is
  thrown again.
\<close>

definition read_and_parse :: "disk \<Rightarrow> string \<Rightarrow> exn + json" where
  "read_and_parse d p = (case fs_readFile d p of Inl e \<Rightarrow> Inl e | Inr f \<Rightarrow> JSON_parse f)"

definition readJsonFile :: "disk \<Rightarrow> string \<Rightarrow> json \<Rightarrow> (exn + json) \<times> disk" where
  "readJsonFile d p defaultValue =
     (case read_and_parse d p of
        Inr v \<Rightarrow> (Inr v, d)
      | Inl e \<Rightarrow>
          if error_code e = Some ''ENOENT'' then
            (case writeJsonFile d p defaultValue of
               (Inl e', d') \<Rightarrow> (Inl e', d')
             | (Inr u, d') \<Rightarrow> (Inr defaultValue, d'))
          else (Inl e, d))"

section \<open>The Remote Backup Mirror\<close>

text \<open>
  The storage service is outside the repository: a configured client is given by what
  its two calls do. \<open>Thrown msg str\<close> is a value that reaches a \<^verbatim>\<open>catch (err)\<close> of the
  helpers, with \<^verbatim>\<open>err.message\<close> (empty when missing) and \<^verbatim>\<open>String(err)\<close>. The
  download either yields the parsed blob or throws: the error the service returns, a
  rejected promise, or the \<^verbatim>\<open>SyntaxError\<close> of \<^verbatim>\<open>JSON.parse\<close> on a blob that is not JSON.
  \<open>supabase = None\<close> is the null client of a server started without credentials.
\<close>

datatype thrown = Thrown (message: string) (as_string: string)

datatype download_reply = Downloaded json | DownloadThrows thrown

record client =
  upload_reply :: "thrown option"
  download_reply :: download_reply

record remote_result =
  ok :: bool
  reason :: "string option"
  error :: "string option"
  data :: "json option"

text \<open>\<^verbatim>\<open>String(err.message || err)\<close>\<close>

definition error_text :: "thrown \<Rightarrow> string" where
  "error_text err = (if message err \<noteq> [] then message err else as_string err)"

definition uploadBackupToSupabase :: "client option \<Rightarrow> json \<Rightarrow> remote_result" where
  "uploadBackupToSupabase supabase backupData =
     (case supabase of
        None \<Rightarrow> \<lparr>ok = False, reason = Some ''supabase_not_configured'', error = None, data = None\<rparr>
      | Some c \<Rightarrow>
          (case upload_reply c of
             None \<Rightarrow> \<lparr>ok = True, reason = None, error = None, data = None\<rparr>
           | Some err \<Rightarrow>
               \<lparr>ok = False, reason = Some ''upload_failed'', error = Some (error_text err),
                data = None\<rparr>))"

text \<open>
  The test \<^verbatim>\<open>/Object not found|not found/i.test(err.message)\<close>: one of the two phrases
  occurs in the message, letters compared without case.
\<close>

definition lower_ascii :: "char \<Rightarrow> char" where
  "lower_ascii c =
     (case map_of (zip ''ABCDEFGHIJKLMNOPQRSTUVWXYZ'' ''abcdefghijklmnopqrstuvwxyz'') c of
        Some l \<Rightarrow> l
      | None \<Rightarrow> c)"

definition not_found_message :: "string \<Rightarrow> bool" where
  "not_found_message msg =
     (sublist ''object not found'' (map lower_ascii msg)
      \<or> sublist ''not found'' (map lower_ascii msg))"

definition downloadBackupFromSupabase :: "client option \<Rightarrow> remote_result" where
  "downloadBackupFromSupabase supabase =
     (case supabase of
        None \<Rightarrow> \<lparr>ok = False, reason = Some ''supabase_not_configured'', error = None, data = None\<rparr>
      | Some c \<Rightarrow>
          (case download_reply c of
             Downloaded v \<Rightarrow> \<lparr>ok = True, reason = None, error = None, data = Some v\<rparr>
           | DownloadThrows err \<Rightarrow>
               if message err \<noteq> [] \<and> not_found_message (message err)
               then \<lparr>ok = False, reason = Some ''not_found'', error = None, data = None\<rparr>
               else \<lparr>ok = False, reason = Some ''download_failed'',
                     error = Some (error_text err), data = None\<rparr>))"

section \<open>The request handlers\<close>

text \<open>
  A handler takes the data directory and the request (\<^verbatim>\<open>req.body\<close> as
  \<^verbatim>\<open>express.json()\<close> parsed it, \<^verbatim>\<open>req.params.id\<close>, and the string that
  \<^verbatim>\<open>new Date().toISOString()\<close> returns during the request) and gives the directory
  afterwards and the response. \<^verbatim>\<open>res.json(v)\<close> answers with status 200; every handler
  catches whatever its body throws and answers 500 with a fixed message.
\<close>

record response =
  status :: nat
  payload :: json

definition res_json :: "json \<Rightarrow> response" where
  "res_json v = \<lparr>status = 200, payload = v\<rparr>"

definition res_status_json :: "nat \<Rightarrow> json \<Rightarrow> response" where
  "res_status_json n v = \<lparr>status = n, payload = v\<rparr>"

definition error_body :: "string \<Rightarrow> json" where
  "error_body msg = JObj [''error'' \<mapsto> JStr msg]"

text \<open>
  The parser \<^verbatim>\<open>express.json()\<close> runs in its default strict mode: the body a handler
  sees is an object or an array (the empty object when the request carried no JSON).
\<close>

fun is_body :: "json \<Rightarrow> bool" where
  "is_body (JObj m) = True"
| "is_body (JArr xs) = True"
| "is_body v = False"

subsection \<open>Login\<close>

definition defaultSettings :: json where
  "defaultSettings = JObj
     [''siteName'' \<mapsto> JStr ''Park Master Pro'',
      ''pricing'' \<mapsto> JObj
         [''car'' \<mapsto> JObj [''baseHours'' \<mapsto> JNum 2, ''baseFee'' \<mapsto> JNum 50,
                              ''extraHourFee'' \<mapsto> JNum 25],
          ''bike'' \<mapsto> JObj [''baseHours'' \<mapsto> JNum 2, ''baseFee'' \<mapsto> JNum 20,
                               ''extraHourFee'' \<mapsto> JNum 10],
          ''rickshaw'' \<mapsto> JObj [''baseHours'' \<mapsto> JNum 2, ''baseFee'' \<mapsto> JNum 30,
                                   ''extraHourFee'' \<mapsto> JNum 15]],
      ''credentials'' \<mapsto> JObj [''username'' \<mapsto> JStr ''admin'',
                                   ''password'' \<mapsto> JStr ''admin123''],
      ''viewMode'' \<mapsto> JStr ''grid'']"

definition login_ok :: response where
  "login_ok = res_json (JObj [''success'' \<mapsto> JBool True, ''message'' \<mapsto> JStr ''Login successful''])"

definition login_invalid :: response where
  "login_invalid = res_status_json 401
     (JObj [''success'' \<mapsto> JBool False, ''message'' \<mapsto> JStr ''Invalid credentials''])"

definition login_server_error :: response where
  "login_server_error = res_status_json 500
     (JObj [''success'' \<mapsto> JBool False, ''message'' \<mapsto> JStr ''Server error''])"

text \<open>
  \<^verbatim>\<open>POST /api/auth/login\<close>. The destructuring of the body throws on null; the two reads
  \<^verbatim>\<open>settings.credentials.username\<close> and \<^verbatim>\<open>settings.credentials.password\<close> throw when
  \<^verbatim>\<open>settings.credentials\<close> is undefined or null; \<^verbatim>\<open>&&\<close> reads the password only when
  the user names are equal.
\<close>

definition post_login :: "disk \<Rightarrow> json \<Rightarrow> disk \<times> response" where
  "post_login d body =
     (case get_prop body ''username'' of
        Inl e \<Rightarrow> (d, login_server_error)
      | Inr username \<Rightarrow>
     (case get_prop body ''password'' of
        Inl e \<Rightarrow> (d, login_server_error)
      | Inr password \<Rightarrow>
     (case readJsonFile d SETTINGS_FILE defaultSettings of
        (Inl e, d') \<Rightarrow> (d', login_server_error)
      | (Inr settings, d') \<Rightarrow>
     (case get_prop settings ''credentials'' of
        Inl e \<Rightarrow> (d', login_server_error)
      | Inr credentials \<Rightarrow>
     (case get_prop_opt credentials ''username'' of
        Inl e \<Rightarrow> (d', login_server_error)
      | Inr stored_username \<Rightarrow>
          if strict_eq username stored_username then
            (case get_prop_opt credentials ''password'' of
               Inl e \<Rightarrow> (d', login_server_error)
             | Inr stored_password \<Rightarrow>
                 if strict_eq password stored_password then (d', login_ok)
                 else (d', login_invalid))
          else (d', login_invalid))))))"

subsection \<open>Settings\<close>

text \<open>\<^verbatim>\<open>PUT /api/settings\<close>: the body replaces the settings document, whatever it is.\<close>

definition put_settings :: "disk \<Rightarrow> json \<Rightarrow> disk \<times> response" where
  "put_settings d body =
     (case writeJsonFile d SETTINGS_FILE body of
        (Inl e, d') \<Rightarrow> (d', res_status_json 500 (error_body ''Failed to update settings''))
      | (Inr u, d') \<Rightarrow> (d', res_json body))"

subsection \<open>Vehicles and permanent clients\<close>

text \<open>The callback \<^verbatim>\<open>v => v.id === req.params.id\<close>; a route parameter is a string.\<close>

definition has_id :: "string \<Rightarrow> json \<Rightarrow> exn + bool" where
  "has_id ident v =
     (case get_prop v ''id'' of
        Inl e \<Rightarrow> Inl e
      | Inr x \<Rightarrow> Inr (strict_eq x (Some (JStr ident))))"

text \<open>
  \<^verbatim>\<open>PUT /api/vehicles/:id/exit\<close>. The record written is
  \<^verbatim>\<open>{ ...vehicles[vehicleIndex], exitTime: now, fee: req.body.fee }\<close>; a \<^verbatim>\<open>fee\<close> that is
  undefined is a property that \<^verbatim>\<open>JSON.stringify\<close> leaves out, in the file as in the
  response, so the record then has no \<^verbatim>\<open>fee\<close>.
\<close>

definition put_vehicle_exit :: "disk \<Rightarrow> string \<Rightarrow> string \<Rightarrow> json \<Rightarrow> disk \<times> response" where
  "put_vehicle_exit d ident now body =
     (case readJsonFile d VEHICLES_FILE (JArr []) of
        (Inl e, d') \<Rightarrow> (d', res_status_json 500 (error_body ''Failed to update vehicle''))
      | (Inr vehicles, d') \<Rightarrow>
     (case as_array vehicles of
        Inl e \<Rightarrow> (d', res_status_json 500 (error_body ''Failed to update vehicle''))
      | Inr vs \<Rightarrow>
     (case findIndex (has_id ident) vs of
        Inl e \<Rightarrow> (d', res_status_json 500 (error_body ''Failed to update vehicle''))
      | Inr None \<Rightarrow> (d', res_status_json 404 (error_body ''Vehicle not found''))
      | Inr (Some vehicleIndex) \<Rightarrow>
     (case get_prop body ''fee'' of
        Inl e \<Rightarrow> (d', res_status_json 500 (error_body ''Failed to update vehicle''))
      | Inr fee \<Rightarrow>
          (let updated = JObj ((own_props (vs ! vehicleIndex))
                                 (''exitTime'' \<mapsto> JStr now, ''fee'' := fee))
           in case writeJsonFile d' VEHICLES_FILE (JArr (vs[vehicleIndex := updated])) of
                (Inl e, d'') \<Rightarrow>
                  (d'', res_status_json 500 (error_body ''Failed to update vehicle''))
              | (Inr u, d'') \<Rightarrow> (d'', res_json updated))))))"

text \<open>
  \<^verbatim>\<open>PUT /api/permanent-clients/:id\<close>. The record written is
  \<^verbatim>\<open>{ ...clients[clientIndex], ...req.body }\<close>.
\<close>

definition put_permanent_client :: "disk \<Rightarrow> string \<Rightarrow> json \<Rightarrow> disk \<times> response" where
  "put_permanent_client d ident body =
     (case readJsonFile d PERMANENT_CLIENTS_FILE (JArr []) of
        (Inl e, d') \<Rightarrow>
          (d', res_status_json 500 (error_body ''Failed to update permanent client''))
      | (Inr clients, d') \<Rightarrow>
     (case as_array clients of
        Inl e \<Rightarrow> (d', res_status_json 500 (error_body ''Failed to update permanent client''))
      | Inr cs \<Rightarrow>
     (case findIndex (has_id ident) cs of
        Inl e \<Rightarrow> (d', res_status_json 500 (error_body ''Failed to update permanent client''))
      | Inr None \<Rightarrow> (d', res_status_json 404 (error_body ''Client not found''))
      | Inr (Some clientIndex) \<Rightarrow>
          (let merged = JObj (own_props (cs ! clientIndex) ++ own_props body)
           in case writeJsonFile d' PERMANENT_CLIENTS_FILE (JArr (cs[clientIndex := merged])) of
                (Inl e, d'') \<Rightarrow>
                  (d'', res_status_json 500 (error_body ''Failed to update permanent client''))
              | (Inr u, d'') \<Rightarrow> (d'', res_json merged)))))"

subsection \<open>Daily stats\<close>

text \<open>
  The callback \<^verbatim>\<open>s => s.date === req.body.date\<close>: \<^verbatim>\<open>s.date\<close> is read first, then
  \<^verbatim>\<open>req.body.date\<close>, once for every element visited.
\<close>

definition same_date :: "json \<Rightarrow> json \<Rightarrow> exn + bool" where
  "same_date body s =
     (case get_prop s ''date'' of
        Inl e \<Rightarrow> Inl e
      | Inr a \<Rightarrow>
          (case get_prop body ''date'' of
             Inl e \<Rightarrow> Inl e
           | Inr b \<Rightarrow> Inr (strict_eq a b)))"

text \<open>\<^verbatim>\<open>POST /api/daily-stats\<close>\<close>

definition post_daily_stats :: "disk \<Rightarrow> json \<Rightarrow> disk \<times> response" where
  "post_daily_stats d body =
     (case readJsonFile d DAILY_STATS_FILE (JArr []) of
        (Inl e, d') \<Rightarrow> (d', res_status_json 500 (error_body ''Failed to update daily stats''))
      | (Inr stats, d') \<Rightarrow>
     (case as_array stats of
        Inl e \<Rightarrow> (d', res_status_json 500 (error_body ''Failed to update daily stats''))
      | Inr xs \<Rightarrow>
     (case findIndex (same_date body) xs of
        Inl e \<Rightarrow> (d', res_status_json 500 (error_body ''Failed to update daily stats''))
      | Inr existingIndex \<Rightarrow>
          (let stats' = (case existingIndex of
                           Some i \<Rightarrow> xs[i := body]
                         | None \<Rightarrow> xs @ [body])
           in case writeJsonFile d' DAILY_STATS_FILE (JArr stats') of
                (Inl e, d'') \<Rightarrow>
                  (d'', res_status_json 500 (error_body ''Failed to update daily stats''))
              | (Inr u, d'') \<Rightarrow> (d'', res_json body)))))"

section \<open>The Snapshot Synchronizer\<close>

text \<open>
  The statement \<^verbatim>\<open>if (b.name) await writeJsonFile(FILE, b.name)\<close>, which the backup
  handler and the startup restore both run once for each of the four collections.
\<close>

definition write_field :: "disk \<Rightarrow> json \<Rightarrow> string \<Rightarrow> string \<Rightarrow> (exn + unit) \<times> disk" where
  "write_field d b name path =
     (case get_prop b name of
        Inl e \<Rightarrow> (Inl e, d)
      | Inr None \<Rightarrow> (Inr (), d)
      | Inr (Some v) \<Rightarrow> if truthy v then writeJsonFile d path v else (Inr (), d))"

definition write_live_files :: "disk \<Rightarrow> json \<Rightarrow> (exn + unit) \<times> disk" where
  "write_live_files d b =
     (case write_field d b ''vehicles'' VEHICLES_FILE of
        (Inl e, d1) \<Rightarrow> (Inl e, d1)
      | (Inr u, d1) \<Rightarrow>
     (case write_field d1 b ''permanentClients'' PERMANENT_CLIENTS_FILE of
        (Inl e, d2) \<Rightarrow> (Inl e, d2)
      | (Inr u, d2) \<Rightarrow>
     (case write_field d2 b ''settings'' SETTINGS_FILE of
        (Inl e, d3) \<Rightarrow> (Inl e, d3)
      | (Inr u, d3) \<Rightarrow> write_field d3 b ''dailyStats'' DAILY_STATS_FILE)))"

text \<open>
  \<^verbatim>\<open>POST /api/backup\<close>: the backup file first, then the live files, then the upload, whose
  outcome only sets the \<^verbatim>\<open>supabase\<close> flag of the response.
\<close>

definition backup_saved :: "bool \<Rightarrow> response" where
  "backup_saved flag = res_json (JObj [''success'' \<mapsto> JBool True, ''supabase'' \<mapsto> JBool flag])"

definition post_backup :: "client option \<Rightarrow> disk \<Rightarrow> json \<Rightarrow> disk \<times> response" where
  "post_backup supabase d backupData =
     (case writeJsonFile d BACKUP_FILE backupData of
        (Inl e, d0) \<Rightarrow> (d0, res_status_json 500 (error_body ''Failed to save backup''))
      | (Inr u, d0) \<Rightarrow>
     (case write_live_files d0 backupData of
        (Inl e, d1) \<Rightarrow> (d1, res_status_json 500 (error_body ''Failed to save backup''))
      | (Inr u, d1) \<Rightarrow>
          (let up = uploadBackupToSupabase supabase backupData
           in (d1, backup_saved (ok up)))))"

text \<open>\<^verbatim>\<open>x || {}\<close>\<close>

definition or_empty :: "json option \<Rightarrow> json" where
  "or_empty x = (case x of None \<Rightarrow> JObj Map.empty | Some v \<Rightarrow> if truthy v then v else JObj Map.empty)"

text \<open>\<^verbatim>\<open>GET /api/backup\<close>: the remote copy first, the local backup file otherwise.\<close>

definition get_backup :: "client option \<Rightarrow> disk \<Rightarrow> disk \<times> response" where
  "get_backup supabase d =
     (let down = downloadBackupFromSupabase supabase
      in if ok down then (d, res_json (or_empty (data down)))
         else
           (case readJsonFile d BACKUP_FILE (JObj Map.empty) of
              (Inl e, d') \<Rightarrow> (d', res_status_json 500 (error_body ''Failed to load backup''))
            | (Inr backupData, d') \<Rightarrow> (d', res_json (or_empty (Some backupData)))))"

text \<open>
  The restore that \<^verbatim>\<open>startServer\<close> runs before it listens: with a remote snapshot that is
  truthy, the live files, then the backup file; an exception ends the restore and is
  logged only.
\<close>

definition startup_restore :: "client option \<Rightarrow> disk \<Rightarrow> disk" where
  "startup_restore supabase d =
     (let down = downloadBackupFromSupabase supabase
      in if ok down \<and> truthy_opt (data down) then
           (case data down of
              None \<Rightarrow> d
            | Some b \<Rightarrow>
                (case write_live_files d b of
                   (Inl e, d') \<Rightarrow> d'
                 | (Inr u, d') \<Rightarrow> snd (writeJsonFile d' BACKUP_FILE b)))
         else d)"

section \<open>Vocabulary of the properties\<close>

text \<open>
  The value of property \<open>k\<close> of a record; a value that is not an object has none.
\<close>

definition field :: "json \<Rightarrow> string \<Rightarrow> json option" where
  "field v k = (case v of JObj m \<Rightarrow> m k | _ \<Rightarrow> None)"

text \<open>
  The four snapshot fields with the live file each one is written to, and the five files
  that a backup save may write.
\<close>

definition live_fields :: "(string \<times> string) list" where
  "live_fields =
     [(''vehicles'', VEHICLES_FILE), (''permanentClients'', PERMANENT_CLIENTS_FILE),
      (''settings'', SETTINGS_FILE), (''dailyStats'', DAILY_STATS_FILE)]"

definition data_files :: "string list" where
  "data_files = BACKUP_FILE # map snd live_fields"

text \<open>A snapshot with all four fields populated, for the examples.\<close>

definition example_snapshot :: json where
  "example_snapshot = JObj
     [''vehicles'' \<mapsto> JArr [JObj [''id'' \<mapsto> JStr ''1700000000000'', ''plate'' \<mapsto> JStr ''LEA-1234'']],
      ''permanentClients'' \<mapsto> JArr [],
      ''settings'' \<mapsto> defaultSettings,
      ''dailyStats'' \<mapsto> JArr [JObj [''date'' \<mapsto> JStr ''2024-05-01'', ''income'' \<mapsto> JNum 150]]]"

text \<open>A vehicles collection and a clients collection, for the examples.\<close>

definition example_vehicles :: "json list" where
  "example_vehicles =
     [JObj [''id'' \<mapsto> JStr ''1700000000000'', ''plate'' \<mapsto> JStr ''LEA-1234''],
      JObj [''id'' \<mapsto> JStr ''1700000360000'', ''plate'' \<mapsto> JStr ''KHI-77'']]"

definition example_clients :: "json list" where
  "example_clients =
     [JObj [''id'' \<mapsto> JStr ''1700000000001'', ''name'' \<mapsto> JStr ''Asha'',
            ''paymentStatus'' \<mapsto> JStr ''unpaid'']]"

text \<open>
  The records of a daily-stats collection for a date; three records for the examples.
\<close>

definition records_for :: "string \<Rightarrow> json list \<Rightarrow> json list" where
  "records_for dt xs = filter (\<lambda>s. field s ''date'' = Some (JStr dt)) xs"

definition stat_a :: json where
  "stat_a = JObj [''date'' \<mapsto> JStr ''2024-05-01'', ''income'' \<mapsto> JNum 100]"

definition stat_b :: json where
  "stat_b = JObj [''date'' \<mapsto> JStr ''2024-05-01'', ''income'' \<mapsto> JNum 250]"

definition stat_c :: json where
  "stat_c = JObj [''date'' \<mapsto> JStr ''2024-05-02'', ''income'' \<mapsto> JNum 75]"

text \<open>
  At most one record per date: the dates of the records that have one are pairwise
  different. A document that is not an array holds no record; the invariant of the data
  directory is about the daily-stats file when it holds a JSON document.
\<close>

definition dates :: "json list \<Rightarrow> json list" where
  "dates xs = map the (filter (\<lambda>x. x \<noteq> None) (map (\<lambda>s. field s ''date'') xs))"

definition one_record_per_date :: "json \<Rightarrow> bool" where
  "one_record_per_date doc = (case doc of JArr xs \<Rightarrow> distinct (dates xs) | _ \<Rightarrow> True)"

definition stats_invariant :: "disk \<Rightarrow> bool" where
  "stats_invariant d =
     (case d DAILY_STATS_FILE of
        Some (Present (Text doc)) \<Rightarrow> one_record_per_date doc
      | _ \<Rightarrow> True)"

text \<open>
  The three operations that write the daily-stats file, as events of a run of the
  server, and the state after an event.
\<close>

datatype event =
    DailyStatsPost json
  | BackupSave "client option" json
  | StartupRestore "client option"

fun step :: "disk \<Rightarrow> event \<Rightarrow> disk" where
  "step d (DailyStatsPost body) = fst (post_daily_stats d body)"
| "step d (BackupSave supabase snapshot) = fst (post_backup supabase d snapshot)"
| "step d (StartupRestore supabase) = startup_restore supabase d"

text \<open>
  What the server does not check: that a posted record carries a string date, and that
  the \<^verbatim>\<open>dailyStats\<close> of a snapshot (saved, or restored from the remote mirror at startup)
  has at most one record per date.
\<close>

definition has_string_date :: "json \<Rightarrow> bool" where
  "has_string_date body = (case field body ''date'' of Some (JStr dt) \<Rightarrow> True | _ \<Rightarrow> False)"

definition snapshot_ok :: "json \<Rightarrow> bool" where
  "snapshot_ok b = (case field b ''dailyStats'' of Some v \<Rightarrow> one_record_per_date v | None \<Rightarrow> True)"

fun event_ok :: "event \<Rightarrow> bool" where
  "event_ok (DailyStatsPost body) = has_string_date body"
| "event_ok (BackupSave supabase snapshot) = snapshot_ok snapshot"
| "event_ok (StartupRestore supabase) =
     (case supabase of
        None \<Rightarrow> True
      | Some c \<Rightarrow> (case download_reply c of Downloaded b \<Rightarrow> snapshot_ok b | DownloadThrows e \<Rightarrow> True))"

section \<open>Properties of the Document Store\<close>

lemma file_names_distinct [simp]:
  "VEHICLES_FILE \<noteq> PERMANENT_CLIENTS_FILE" "VEHICLES_FILE \<noteq> SETTINGS_FILE"
  "VEHICLES_FILE \<noteq> DAILY_STATS_FILE" "VEHICLES_FILE \<noteq> BACKUP_FILE"
  "PERMANENT_CLIENTS_FILE \<noteq> VEHICLES_FILE" "PERMANENT_CLIENTS_FILE \<noteq> SETTINGS_FILE"
  "PERMANENT_CLIENTS_FILE \<noteq> DAILY_STATS_FILE" "PERMANENT_CLIENTS_FILE \<noteq> BACKUP_FILE"
  "SETTINGS_FILE \<noteq> VEHICLES_FILE" "SETTINGS_FILE \<noteq> PERMANENT_CLIENTS_FILE"
  "SETTINGS_FILE \<noteq> DAILY_STATS_FILE" "SETTINGS_FILE \<noteq> BACKUP_FILE"
  "DAILY_STATS_FILE \<noteq> VEHICLES_FILE" "DAILY_STATS_FILE \<noteq> PERMANENT_CLIENTS_FILE"
  "DAILY_STATS_FILE \<noteq> SETTINGS_FILE" "DAILY_STATS_FILE \<noteq> BACKUP_FILE"
  "BACKUP_FILE \<noteq> VEHICLES_FILE" "BACKUP_FILE \<noteq> PERMANENT_CLIENTS_FILE"
  "BACKUP_FILE \<noteq> SETTINGS_FILE" "BACKUP_FILE \<noteq> DAILY_STATS_FILE"
  by (simp_all add: VEHICLES_FILE_def PERMANENT_CLIENTS_FILE_def SETTINGS_FILE_def
      DAILY_STATS_FILE_def BACKUP_FILE_def)

lemma readJsonFile_Text:
  "d p = Some (Present (Text v)) \<Longrightarrow> readJsonFile d p dv = (Inr v, d)"
  by (simp add: readJsonFile_def read_and_parse_def fs_readFile_def JSON_parse_def)

lemma readJsonFile_missing:
  "d p = None \<Longrightarrow> readJsonFile d p dv = (Inr dv, d(p \<mapsto> Present (Text dv)))"
  by (simp add: readJsonFile_def read_and_parse_def fs_readFile_def writeJsonFile_def)


lemma writeJsonFile_ok:
  "(\<And>c. d p \<noteq> Some (Faulty c)) \<Longrightarrow> writeJsonFile d p v = (Inr (), d(p \<mapsto> Present (Text v)))"
  by (auto simp: writeJsonFile_def split: option.splits node.splits)




section \<open>Properties of JSON values and of \<open>findIndex\<close>\<close>

lemma get_prop_field: "v \<noteq> JNull \<Longrightarrow> get_prop v k = Inr (field v k)"
  by (cases v) (simp_all add: field_def)

lemma strict_eq_string: "strict_eq x (Some (JStr s)) = (x = Some (JStr s))"
  by (auto simp: strict_eq_def split: option.splits)

lemma has_id_field:
  "v \<noteq> JNull \<Longrightarrow> has_id ident v = Inr (field v ''id'' = Some (JStr ident))"
  by (simp add: has_id_def get_prop_field strict_eq_string)

lemma findIndex_cases:
  assumes "\<forall>x\<in>set xs. p x = Inr (P x)"
  shows "(\<forall>x\<in>set xs. \<not> P x) \<and> findIndex p xs = Inr None
     \<or> (\<exists>i<length xs. P (xs ! i) \<and> (\<forall>j<i. \<not> P (xs ! j)) \<and> findIndex p xs = Inr (Some i))"
  using assms
proof (induction xs)
  case Nil
  then show ?case by simp
next
  case (Cons x xs)
  show ?case
  proof (cases "P x")
    case True
    with Cons.prems show ?thesis by auto
  next
    case False
    from Cons.prems have "\<forall>y\<in>set xs. p y = Inr (P y)" by simp
    from Cons.IH [OF this] show ?thesis
    proof
      assume "(\<forall>y\<in>set xs. \<not> P y) \<and> findIndex p xs = Inr None"
      with False Cons.prems show ?thesis by simp
    next
      assume "\<exists>i<length xs. P (xs ! i) \<and> (\<forall>j<i. \<not> P (xs ! j)) \<and> findIndex p xs = Inr (Some i)"
      then obtain i where i: "i < length xs" "P (xs ! i)" "\<forall>j<i. \<not> P (xs ! j)"
        "findIndex p xs = Inr (Some i)" by blast
      have "\<forall>j<Suc i. \<not> P ((x # xs) ! j)"
        using False i(3) by (auto simp: less_Suc_eq_0_disj)
      moreover have "findIndex p (x # xs) = Inr (Some (Suc i))"
        using False Cons.prems i(4) by simp
      ultimately have "Suc i < length (x # xs) \<and> P ((x # xs) ! Suc i)
          \<and> (\<forall>j<Suc i. \<not> P ((x # xs) ! j)) \<and> findIndex p (x # xs) = Inr (Some (Suc i))"
        using i(1,2) by simp
      then show ?thesis by blast
    qed
  qed
qed


section \<open>Properties of the Snapshot Synchronizer\<close>

lemma writeJsonFile_other: "q \<noteq> p \<Longrightarrow> snd (writeJsonFile d p v) q = d q"
  by (simp add: writeJsonFile_def split: option.splits node.splits)

lemma write_field_other: "q \<noteq> p \<Longrightarrow> snd (write_field d b f p) q = d q"
  by (simp add: write_field_def writeJsonFile_other split: sum.splits option.splits)

lemma write_live_files_other:
  assumes "q \<noteq> VEHICLES_FILE" "q \<noteq> PERMANENT_CLIENTS_FILE" "q \<noteq> SETTINGS_FILE"
    "q \<noteq> DAILY_STATS_FILE"
  shows "snd (write_live_files d b) q = d q"
proof -
  have step: "snd (case x of (Inl e, d') \<Rightarrow> (Inl e, d') | (Inr u, d') \<Rightarrow> k d') q = d q"
    if "snd x q = d q" and "\<And>d'. d' q = d q \<Longrightarrow> snd (k d') q = d q"
    for x :: "(exn + unit) \<times> disk" and k
    using that by (cases x) (auto split: sum.splits)
  show ?thesis
    unfolding write_live_files_def
    by (intro step) (simp_all add: write_field_other assms)
qed

lemma post_backup_backup_file:
  assumes "\<And>c. d BACKUP_FILE \<noteq> Some (Faulty c)"
  shows "fst (post_backup supabase d b) BACKUP_FILE = Some (Present (Text b))"
proof -
  have w: "writeJsonFile d BACKUP_FILE b = (Inr (), d(BACKUP_FILE \<mapsto> Present (Text b)))"
    using assms by (rule writeJsonFile_ok)
  have "snd (write_live_files (d(BACKUP_FILE \<mapsto> Present (Text b))) b) BACKUP_FILE
      = (d(BACKUP_FILE \<mapsto> Present (Text b))) BACKUP_FILE"
    by (rule write_live_files_other) simp_all
  then show ?thesis
    by (cases "write_live_files (d(BACKUP_FILE \<mapsto> Present (Text b))) b")
       (auto simp: post_backup_def w split: sum.splits)
qed

lemma get_backup_local:
  "\<not> ok (downloadBackupFromSupabase supabase) \<Longrightarrow> d BACKUP_FILE = Some (Present (Text v)) \<Longrightarrow>
   get_backup supabase d = (d, res_json (or_empty (Some v)))"
  by (simp add: get_backup_def readJsonFile_Text)

lemma download_None_not_ok: "\<not> ok (downloadBackupFromSupabase None)"
  by (simp add: downloadBackupFromSupabase_def)

lemma write_field_obj:
  assumes "\<And>c. d p \<noteq> Some (Faulty c)"
  shows "write_field d (JObj m) f p
    = (Inr (), if truthy_opt (m f) then d(p \<mapsto> Present (Text (the (m f)))) else d)"
  by (cases "m f") (simp_all add: write_field_def writeJsonFile_ok assms)

text \<open>
  Claim C1. With no remote mirror configured, saving a snapshot object (in particular one
  with all four fields populated) and then loading returns the snapshot itself: the
  response of \<^verbatim>\<open>GET /api/backup\<close> is 200 with a body equal to the one posted. The
  backup file is the first one written, so this needs no more than a writable backup
  file.
\<close>

theorem backup_round_trip:
  assumes "snapshot = JObj m" and "\<forall>c. d BACKUP_FILE \<noteq> Some (Faulty c)"
  shows "get_backup None (fst (post_backup None d snapshot))
         = (fst (post_backup None d snapshot), res_json snapshot)"
proof -
  have "fst (post_backup None d snapshot) BACKUP_FILE = Some (Present (Text snapshot))"
    using assms(2) by (intro post_backup_backup_file) simp
  then have "get_backup None (fst (post_backup None d snapshot))
      = (fst (post_backup None d snapshot), res_json (or_empty (Some snapshot)))"
    by (rule get_backup_local [OF download_None_not_ok])
  then show ?thesis
    using assms(1) by (simp add: or_empty_def)
qed

theorem backup_round_trip_witness:
  "snd (get_backup None (fst (post_backup None Map.empty example_snapshot)))
     = res_json example_snapshot
   \<and> fst (get_backup None (fst (post_backup None Map.empty example_snapshot)))
     = fst (post_backup None Map.empty example_snapshot)"
  using backup_round_trip [where snapshot = example_snapshot and d = Map.empty]
  by (simp add: example_snapshot_def)

text \<open>
  Claim C2. When the pull succeeds, \<^verbatim>\<open>GET /api/backup\<close> answers with the remote snapshot,
  whatever the local backup file holds. When the pull fails, for whichever reason, the
  handler answers exactly as a server without remote mirror does: with the local backup
  document, or with the empty object (which it also stores) when there is no backup
  file. A snapshot is an object, hence truthy.
\<close>

theorem load_precedence:
  "(supabase = Some c \<and> download_reply c = Downloaded v \<and> truthy v \<longrightarrow>
      get_backup supabase d = (d, res_json v))
   \<and> (\<not> ok (downloadBackupFromSupabase supabase) \<longrightarrow>
      get_backup supabase d = get_backup None d
      \<and> (d BACKUP_FILE = Some (Present (Text v)) \<and> truthy v \<longrightarrow>
           get_backup supabase d = (d, res_json v))
      \<and> (d BACKUP_FILE = None \<longrightarrow>
           get_backup supabase d
           = (d(BACKUP_FILE \<mapsto> Present (Text (JObj Map.empty))), res_json (JObj Map.empty))))"
proof (intro conjI impI)
  assume "supabase = Some c \<and> download_reply c = Downloaded v \<and> truthy v"
  then show "get_backup supabase d = (d, res_json v)"
    by (simp add: get_backup_def downloadBackupFromSupabase_def or_empty_def)
next
  assume fails: "\<not> ok (downloadBackupFromSupabase supabase)"
  then show "get_backup supabase d = get_backup None d"
    by (simp add: get_backup_def download_None_not_ok)
  show "get_backup supabase d = (d, res_json v)"
    if "d BACKUP_FILE = Some (Present (Text v)) \<and> truthy v"
    using that get_backup_local [OF fails, of d v] by (simp add: or_empty_def)
  show "get_backup supabase d
      = (d(BACKUP_FILE \<mapsto> Present (Text (JObj Map.empty))), res_json (JObj Map.empty))"
    if "d BACKUP_FILE = None"
    using that fails by (simp add: get_backup_def readJsonFile_missing or_empty_def)
qed

theorem load_precedence_witness:
  "get_backup (Some \<lparr>upload_reply = None, download_reply = Downloaded example_snapshot\<rparr>)
       [BACKUP_FILE \<mapsto> Present (Text (JObj [''vehicles'' \<mapsto> JArr []]))]
     = ([BACKUP_FILE \<mapsto> Present (Text (JObj [''vehicles'' \<mapsto> JArr []]))],
        res_json example_snapshot)
   \<and> get_backup (Some \<lparr>upload_reply = None,
                        download_reply = DownloadThrows (Thrown ''Object not found'' ''StorageApiError'')\<rparr>)
       [BACKUP_FILE \<mapsto> Present (Text example_snapshot)]
     = ([BACKUP_FILE \<mapsto> Present (Text example_snapshot)], res_json example_snapshot)
   \<and> get_backup None Map.empty
     = ([BACKUP_FILE \<mapsto> Present (Text (JObj Map.empty))], res_json (JObj Map.empty))"
proof -
  let ?up = "Some \<lparr>upload_reply = None, download_reply = Downloaded example_snapshot\<rparr>"
  let ?down = "Some \<lparr>upload_reply = None,
      download_reply = DownloadThrows (Thrown ''Object not found'' ''StorageApiError'')\<rparr>"
  have t: "truthy example_snapshot"
    by (simp add: example_snapshot_def)
  have f1: "\<not> ok (downloadBackupFromSupabase ?down)"
    by (simp add: downloadBackupFromSupabase_def)
  have f2: "\<not> ok (downloadBackupFromSupabase None)"
    by (simp add: downloadBackupFromSupabase_def)
  have c1: "get_backup ?up [BACKUP_FILE \<mapsto> Present (Text (JObj [''vehicles'' \<mapsto> JArr []]))]
      = ([BACKUP_FILE \<mapsto> Present (Text (JObj [''vehicles'' \<mapsto> JArr []]))],
         res_json example_snapshot)"
    using t load_precedence [where supabase = ?up
        and c = "\<lparr>upload_reply = None, download_reply = Downloaded example_snapshot\<rparr>"
        and v = example_snapshot
        and d = "[BACKUP_FILE \<mapsto> Present (Text (JObj [''vehicles'' \<mapsto> JArr []]))]"]
    by simp
  have c2: "get_backup ?down [BACKUP_FILE \<mapsto> Present (Text example_snapshot)]
      = ([BACKUP_FILE \<mapsto> Present (Text example_snapshot)], res_json example_snapshot)"
  proof -
    have "[BACKUP_FILE \<mapsto> Present (Text example_snapshot)] BACKUP_FILE
        = Some (Present (Text example_snapshot))"
      by simp
    with t f1 show ?thesis
      using load_precedence [where supabase = ?down and v = example_snapshot
        and d = "[BACKUP_FILE \<mapsto> Present (Text example_snapshot)]"]
      by blast
  qed
  have c3: "get_backup None Map.empty
      = ([BACKUP_FILE \<mapsto> Present (Text (JObj Map.empty))], res_json (JObj Map.empty))"
  proof -
    have "(Map.empty :: disk) BACKUP_FILE = None"
      by simp
    with f2 show ?thesis
      using load_precedence [where supabase = None and d = Map.empty]
      by blast
  qed
  show ?thesis
    using c1 c2 c3 by simp
qed

text \<open>
  Claim C3, as amended. For a snapshot object and writable data files,
  \<^verbatim>\<open>POST /api/backup\<close> stores the snapshot in the backup file, overwrites the live file
  of each of the four fields whose value is truthy with that value, leaves the live file
  of every other field (absent, or present with null, false, 0 or the empty string) and
  every other file unchanged, and answers \<^verbatim>\<open>{success: true, supabase: flag}\<close>, where the
  flag is the outcome of the upload and nothing else depends on the remote mirror.
\<close>

theorem backup_save_frame:
  fixes d :: disk and m :: "string \<Rightarrow> json option"
  assumes snapshot: "snapshot = JObj m"
    and nofault: "\<forall>p\<in>set data_files. \<forall>c. d p \<noteq> Some (Faulty c)"
  shows "snd (post_backup supabase d snapshot)
           = backup_saved (ok (uploadBackupToSupabase supabase snapshot))
     \<and> fst (post_backup supabase d snapshot) BACKUP_FILE = Some (Present (Text snapshot))
     \<and> (\<forall>(field, path)\<in>set live_fields.
          fst (post_backup supabase d snapshot) path
          = (if truthy_opt (m field) then Some (Present (Text (the (m field)))) else d path))
     \<and> (\<forall>p. p \<notin> set data_files \<longrightarrow> fst (post_backup supabase d snapshot) p = d p)"
proof -
  define d0 where "d0 = d(BACKUP_FILE \<mapsto> Present (Text (JObj m)))"
  define d1 where "d1 = (if truthy_opt (m ''vehicles'')
      then d0(VEHICLES_FILE \<mapsto> Present (Text (the (m ''vehicles'')))) else d0)"
  define d2 where "d2 = (if truthy_opt (m ''permanentClients'')
      then d1(PERMANENT_CLIENTS_FILE \<mapsto> Present (Text (the (m ''permanentClients''))))
      else d1)"
  define d3 where "d3 = (if truthy_opt (m ''settings'')
      then d2(SETTINGS_FILE \<mapsto> Present (Text (the (m ''settings'')))) else d2)"
  define d4 where "d4 = (if truthy_opt (m ''dailyStats'')
      then d3(DAILY_STATS_FILE \<mapsto> Present (Text (the (m ''dailyStats'')))) else d3)"
  note steps = d4_def d3_def d2_def d1_def d0_def
  have f: "d BACKUP_FILE \<noteq> Some (Faulty c)" "d VEHICLES_FILE \<noteq> Some (Faulty c)"
    "d PERMANENT_CLIENTS_FILE \<noteq> Some (Faulty c)" "d SETTINGS_FILE \<noteq> Some (Faulty c)"
    "d DAILY_STATS_FILE \<noteq> Some (Faulty c)" for c
    using nofault by (simp_all add: data_files_def live_fields_def)
  have w0: "writeJsonFile d BACKUP_FILE (JObj m) = (Inr (), d0)"
    unfolding d0_def by (rule writeJsonFile_ok) (rule f)
  have w1: "write_field d0 (JObj m) ''vehicles'' VEHICLES_FILE = (Inr (), d1)"
    unfolding d1_def by (rule write_field_obj) (simp add: d0_def f)
  have w2: "write_field d1 (JObj m) ''permanentClients'' PERMANENT_CLIENTS_FILE = (Inr (), d2)"
    unfolding d2_def by (rule write_field_obj) (simp add: d1_def d0_def f)
  have w3: "write_field d2 (JObj m) ''settings'' SETTINGS_FILE = (Inr (), d3)"
    unfolding d3_def by (rule write_field_obj) (simp add: d2_def d1_def d0_def f)
  have w4: "write_field d3 (JObj m) ''dailyStats'' DAILY_STATS_FILE = (Inr (), d4)"
    unfolding d4_def by (rule write_field_obj) (simp add: d3_def d2_def d1_def d0_def f)
  have saved: "post_backup supabase d snapshot
      = (d4, backup_saved (ok (uploadBackupToSupabase supabase snapshot)))"
    by (simp add: snapshot post_backup_def write_live_files_def w0 w1 w2 w3 w4)
  have backup: "d4 BACKUP_FILE = Some (Present (Text snapshot))"
    by (simp add: steps snapshot)
  have live: "\<forall>(field, path)\<in>set live_fields.
      d4 path = (if truthy_opt (m field) then Some (Present (Text (the (m field)))) else d path)"
    by (simp add: live_fields_def steps)
  have others: "\<forall>p. p \<notin> set data_files \<longrightarrow> d4 p = d p"
    by (simp add: data_files_def live_fields_def steps)
  show ?thesis
    using backup live others by (simp add: saved)
qed

theorem backup_save_frame_witness:
  "snd (post_backup (Some \<lparr>upload_reply = Some (Thrown ''Bucket not found'' ''StorageApiError''),
                            download_reply = Downloaded JNull\<rparr>)
          [DAILY_STATS_FILE \<mapsto> Present (Text (JArr []))]
          (JObj [''vehicles'' \<mapsto> JArr [], ''settings'' \<mapsto> defaultSettings]))
     = backup_saved False
   \<and> map (fst (post_backup (Some \<lparr>upload_reply = Some (Thrown ''Bucket not found'' ''StorageApiError''),
                            download_reply = Downloaded JNull\<rparr>)
          [DAILY_STATS_FILE \<mapsto> Present (Text (JArr []))]
          (JObj [''vehicles'' \<mapsto> JArr [], ''settings'' \<mapsto> defaultSettings])))
        [BACKUP_FILE, VEHICLES_FILE, PERMANENT_CLIENTS_FILE, SETTINGS_FILE, DAILY_STATS_FILE]
     = [Some (Present (Text (JObj [''vehicles'' \<mapsto> JArr [], ''settings'' \<mapsto> defaultSettings]))),
        Some (Present (Text (JArr []))),
        None,
        Some (Present (Text defaultSettings)),
        Some (Present (Text (JArr [])))]"
proof -
  let ?s = "Some \<lparr>upload_reply = Some (Thrown ''Bucket not found'' ''StorageApiError''),
                  download_reply = Downloaded JNull\<rparr>"
  let ?d = "[DAILY_STATS_FILE \<mapsto> Present (Text (JArr []))]"
  let ?m = "[''vehicles'' \<mapsto> JArr [], ''settings'' \<mapsto> defaultSettings]"
  have nofault: "\<forall>p\<in>set data_files. \<forall>c. ?d p \<noteq> Some (Faulty c)"
    by (simp add: data_files_def live_fields_def)
  have settings: "truthy defaultSettings"
    by (simp add: defaultSettings_def)
  show ?thesis
    using settings
      backup_save_frame [where snapshot = "JObj ?m" and m = ?m and d = ?d
        and supabase = ?s, OF refl nofault]
    by (simp add: live_fields_def uploadBackupToSupabase_def)
qed

text \<open>
  The claim as stated fails for a field that is present with the value null: the
  vehicles file keeps its content.
\<close>

theorem backup_save_null_field_counterexample:
  "post_backup None [VEHICLES_FILE \<mapsto> Present (Text (JArr [JStr ''car'']))]
       (JObj [''vehicles'' \<mapsto> JNull])
   = ([VEHICLES_FILE \<mapsto> Present (Text (JArr [JStr ''car''])),
       BACKUP_FILE \<mapsto> Present (Text (JObj [''vehicles'' \<mapsto> JNull]))],
      backup_saved False)"
  by (simp add: post_backup_def write_live_files_def write_field_def writeJsonFile_def
      uploadBackupToSupabase_def)

section \<open>Properties of the Remote Backup Mirror\<close>

text \<open>
  Claim C4, as amended. Without credentials both operations return \<^verbatim>\<open>ok: false\<close> with the
  reason \<^verbatim>\<open>supabase_not_configured\<close>; the result is a value, not an exception, and the
  two handlers go on: the save answers with the flag false once its local writes have
  succeeded, the load answers with what the local read returns.
\<close>

theorem remote_mirror_not_configured:
  "uploadBackupToSupabase None snapshot =
     \<lparr>ok = False, reason = Some ''supabase_not_configured'', error = None, data = None\<rparr>
   \<and> downloadBackupFromSupabase None =
     \<lparr>ok = False, reason = Some ''supabase_not_configured'', error = None, data = None\<rparr>
   \<and> (writeJsonFile d BACKUP_FILE snapshot = (Inr (), d0)
        \<and> write_live_files d0 snapshot = (Inr (), d1) \<longrightarrow>
      post_backup None d snapshot = (d1, backup_saved False))
   \<and> (readJsonFile d BACKUP_FILE (JObj Map.empty) = (Inr v, d') \<longrightarrow>
      get_backup None d = (d', res_json (or_empty (Some v))))"
  by (simp add: uploadBackupToSupabase_def downloadBackupFromSupabase_def post_backup_def
      get_backup_def)

theorem remote_mirror_not_configured_witness:
  "post_backup None Map.empty (JObj [''vehicles'' \<mapsto> JArr []])
     = ([BACKUP_FILE \<mapsto> Present (Text (JObj [''vehicles'' \<mapsto> JArr []])),
         VEHICLES_FILE \<mapsto> Present (Text (JArr []))],
        backup_saved False)
   \<and> get_backup None [BACKUP_FILE \<mapsto> Present (Text (JObj [''vehicles'' \<mapsto> JArr []]))]
     = ([BACKUP_FILE \<mapsto> Present (Text (JObj [''vehicles'' \<mapsto> JArr []]))],
        res_json (JObj [''vehicles'' \<mapsto> JArr []]))"
proof -
  let ?b = "JObj [''vehicles'' \<mapsto> JArr []]"
  let ?d0 = "[BACKUP_FILE \<mapsto> Present (Text ?b)]"
  let ?d1 = "[BACKUP_FILE \<mapsto> Present (Text ?b), VEHICLES_FILE \<mapsto> Present (Text (JArr []))]"
  have w: "writeJsonFile Map.empty BACKUP_FILE ?b = (Inr (), ?d0)
      \<and> write_live_files ?d0 ?b = (Inr (), ?d1)"
    by (simp add: writeJsonFile_def write_live_files_def write_field_def)
  have r: "readJsonFile ?d0 BACKUP_FILE (JObj Map.empty) = (Inr ?b, ?d0)"
    by (simp add: readJsonFile_Text)
  show ?thesis
    using w r
      remote_mirror_not_configured [where snapshot = ?b and d = Map.empty and ?d0.0 = ?d0
        and ?d1.0 = ?d1]
      remote_mirror_not_configured [where d = ?d0 and v = ?b and d' = ?d0]
    by (simp add: or_empty_def)
qed

text \<open>The reason is not the string \<^verbatim>\<open>not_configured\<close> of the claim.\<close>

theorem remote_mirror_reason_counterexample:
  "reason (uploadBackupToSupabase None (JObj Map.empty)) \<noteq> Some ''not_configured''
   \<and> reason (downloadBackupFromSupabase None) \<noteq> Some ''not_configured''"
  by (simp add: uploadBackupToSupabase_def downloadBackupFromSupabase_def)

section \<open>Properties of the login\<close>

text \<open>
  Claim C10, as amended. When the \<^verbatim>\<open>credentials\<close> property of the stored settings
  document is missing or null, the read of \<^verbatim>\<open>settings.credentials.username\<close> throws and
  the login answers 500 with the message \<^verbatim>\<open>Server error\<close> for every request body, and
  never 401.
\<close>

theorem login_without_credentials:
  assumes stored: "d SETTINGS_FILE = Some (Present (Text settings))"
    and lacks: "\<forall>c. get_prop settings ''credentials'' = Inr (Some c) \<longrightarrow> c = JNull"
  shows "post_login d body = (d, login_server_error)
     \<and> snd (post_login d body) \<noteq> login_invalid"
proof -
  have read: "readJsonFile d SETTINGS_FILE defaultSettings = (Inr settings, d)"
    using stored by (rule readJsonFile_Text)
  have "post_login d body = (d, login_server_error)"
  proof (cases "get_prop settings ''credentials''")
    case (Inl e)
    then show ?thesis
      by (simp add: post_login_def read split: sum.splits)
  next
    case (Inr c)
    then have "get_prop_opt c ''username'' = Inl TypeError"
      using lacks by (cases c) auto
    with Inr show ?thesis
      by (simp add: post_login_def read split: sum.splits)
  qed
  then show ?thesis
    by (simp add: login_server_error_def login_invalid_def res_status_json_def)
qed

theorem login_without_credentials_witness:
  "fst (put_settings Map.empty (JObj [''siteName'' \<mapsto> JStr ''Lot A'']))
     = [SETTINGS_FILE \<mapsto> Present (Text (JObj [''siteName'' \<mapsto> JStr ''Lot A'']))]
   \<and> post_login [SETTINGS_FILE \<mapsto> Present (Text (JObj [''siteName'' \<mapsto> JStr ''Lot A'']))]
        (JObj [''username'' \<mapsto> JStr ''admin'', ''password'' \<mapsto> JStr ''admin123''])
     = ([SETTINGS_FILE \<mapsto> Present (Text (JObj [''siteName'' \<mapsto> JStr ''Lot A'']))],
        login_server_error)"
  using login_without_credentials
    [where d = "[SETTINGS_FILE \<mapsto> Present (Text (JObj [''siteName'' \<mapsto> JStr ''Lot A'']))]"
      and settings = "JObj [''siteName'' \<mapsto> JStr ''Lot A'']"
      and body = "JObj [''username'' \<mapsto> JStr ''admin'', ''password'' \<mapsto> JStr ''admin123'']"]
  by (simp add: put_settings_def writeJsonFile_def)

text \<open>
  The claim as stated fails for a settings document whose \<^verbatim>\<open>credentials\<close> is present but
  not an object, a state that \<^verbatim>\<open>PUT /api/settings\<close> reaches as well: a property read on
  a string throws nothing and gives undefined, so the login answers 401 to a body with a
  user name, and 200 to a body that has neither user name nor password.
\<close>

theorem login_credentials_not_object_counterexample:
  "fst (put_settings Map.empty (JObj [''credentials'' \<mapsto> JStr ''abc'']))
     = [SETTINGS_FILE \<mapsto> Present (Text (JObj [''credentials'' \<mapsto> JStr ''abc'']))]
   \<and> post_login [SETTINGS_FILE \<mapsto> Present (Text (JObj [''credentials'' \<mapsto> JStr ''abc'']))]
        (JObj [''username'' \<mapsto> JStr ''admin'', ''password'' \<mapsto> JStr ''admin123''])
     = ([SETTINGS_FILE \<mapsto> Present (Text (JObj [''credentials'' \<mapsto> JStr ''abc'']))],
        login_invalid)
   \<and> post_login [SETTINGS_FILE \<mapsto> Present (Text (JObj [''credentials'' \<mapsto> JStr ''abc'']))]
        (JObj Map.empty)
     = ([SETTINGS_FILE \<mapsto> Present (Text (JObj [''credentials'' \<mapsto> JStr ''abc'']))],
        login_ok)
   \<and> login_invalid \<noteq> login_server_error \<and> login_ok \<noteq> login_server_error"
  by (simp add: put_settings_def writeJsonFile_def post_login_def readJsonFile_Text
      strict_eq_def login_invalid_def login_ok_def login_server_error_def res_json_def
      res_status_json_def)

section \<open>Properties of the vehicle and client endpoints\<close>

lemma field_Some_obj: "field v k = Some x \<Longrightarrow> \<exists>r. v = JObj r \<and> r k = Some x"
  by (cases v) (simp_all add: field_def)

lemma is_body_not_null: "is_body b \<Longrightarrow> b \<noteq> JNull"
  by auto

lemma writeJsonFile_Present:
  "d p = Some (Present c) \<Longrightarrow> writeJsonFile d p v = (Inr (), d(p \<mapsto> Present (Text v)))"
  by (simp add: writeJsonFile_def)

lemma findIndex_has_id:
  assumes "JNull \<notin> set vs"
  shows "(\<forall>v\<in>set vs. field v ''id'' \<noteq> Some (JStr ident)) \<and> findIndex (has_id ident) vs = Inr None
     \<or> (\<exists>i<length vs. field (vs ! i) ''id'' = Some (JStr ident)
          \<and> (\<forall>j<i. field (vs ! j) ''id'' \<noteq> Some (JStr ident))
          \<and> findIndex (has_id ident) vs = Inr (Some i))"
proof -
  have "\<forall>v\<in>set vs. has_id ident v = Inr (field v ''id'' = Some (JStr ident))"
    using assms by (auto intro: has_id_field)
  from findIndex_cases [OF this] show ?thesis
    by blast
qed

text \<open>
  Claim C6. For a vehicles collection (an array whose records are not null) and an
  identifier: when no record has the identifier, the exit answers 404 and the data
  directory is unchanged; when some record has it, the first such record \<open>r\<close> is
  replaced by \<open>r\<close> with \<^verbatim>\<open>exitTime\<close> set to the time of the request and \<^verbatim>\<open>fee\<close> set
  to the fee of the body (no \<^verbatim>\<open>fee\<close> when the body has none), every other position of
  the collection is as before, and the response is the new record.
\<close>

theorem vehicle_exit:
  assumes stored: "d VEHICLES_FILE = Some (Present (Text (JArr vs)))"
    and records: "JNull \<notin> set vs"
    and body: "is_body body"
  shows "((\<forall>v\<in>set vs. field v ''id'' \<noteq> Some (JStr ident)) \<longrightarrow>
            put_vehicle_exit d ident now body
            = (d, res_status_json 404 (error_body ''Vehicle not found'')))
     \<and> ((\<exists>v\<in>set vs. field v ''id'' = Some (JStr ident)) \<longrightarrow>
          (\<exists>i r. i < length vs \<and> vs ! i = JObj r \<and> r ''id'' = Some (JStr ident)
             \<and> (\<forall>j<i. field (vs ! j) ''id'' \<noteq> Some (JStr ident))
             \<and> put_vehicle_exit d ident now body
               = (d(VEHICLES_FILE \<mapsto> Present (Text (JArr (vs[i := JObj
                      (r(''exitTime'' \<mapsto> JStr now, ''fee'' := field body ''fee''))])))),
                  res_json (JObj (r(''exitTime'' \<mapsto> JStr now, ''fee'' := field body ''fee''))))))"
proof -
  have read: "readJsonFile d VEHICLES_FILE (JArr []) = (Inr (JArr vs), d)"
    using stored by (rule readJsonFile_Text)
  have fee: "get_prop body ''fee'' = Inr (field body ''fee'')"
    using body by (intro get_prop_field is_body_not_null)
  have wr: "writeJsonFile d VEHICLES_FILE v = (Inr (), d(VEHICLES_FILE \<mapsto> Present (Text v)))"
    for v using stored by (rule writeJsonFile_Present)
  from findIndex_has_id [OF records, of ident] show ?thesis
  proof
    assume "(\<forall>v\<in>set vs. field v ''id'' \<noteq> Some (JStr ident))
        \<and> findIndex (has_id ident) vs = Inr None"
    then show ?thesis
      by (auto simp: put_vehicle_exit_def read)
  next
    assume "\<exists>i<length vs. field (vs ! i) ''id'' = Some (JStr ident)
        \<and> (\<forall>j<i. field (vs ! j) ''id'' \<noteq> Some (JStr ident))
        \<and> findIndex (has_id ident) vs = Inr (Some i)"
    then obtain i where i: "i < length vs" "field (vs ! i) ''id'' = Some (JStr ident)"
      "\<forall>j<i. field (vs ! j) ''id'' \<noteq> Some (JStr ident)"
      "findIndex (has_id ident) vs = Inr (Some i)"
      by blast
    from i(2) obtain r where r: "vs ! i = JObj r" "r ''id'' = Some (JStr ident)"
      by (blast dest: field_Some_obj)
    have "put_vehicle_exit d ident now body
        = (d(VEHICLES_FILE \<mapsto> Present (Text (JArr (vs[i := JObj
               (r(''exitTime'' \<mapsto> JStr now, ''fee'' := field body ''fee''))])))),
           res_json (JObj (r(''exitTime'' \<mapsto> JStr now, ''fee'' := field body ''fee''))))"
      by (simp add: put_vehicle_exit_def read i(4) fee r(1) wr Let_def)
    with i(1,3) r have found: "\<exists>i r. i < length vs \<and> vs ! i = JObj r \<and> r ''id'' = Some (JStr ident)
             \<and> (\<forall>j<i. field (vs ! j) ''id'' \<noteq> Some (JStr ident))
             \<and> put_vehicle_exit d ident now body
               = (d(VEHICLES_FILE \<mapsto> Present (Text (JArr (vs[i := JObj
                      (r(''exitTime'' \<mapsto> JStr now, ''fee'' := field body ''fee''))])))),
                  res_json (JObj (r(''exitTime'' \<mapsto> JStr now, ''fee'' := field body ''fee''))))"
      by blast
    have "\<not> (\<forall>v\<in>set vs. field v ''id'' \<noteq> Some (JStr ident))"
      using i(1,2) nth_mem by blast
    with found show ?thesis
      by blast
  qed
qed

theorem vehicle_exit_witness:
  "put_vehicle_exit [VEHICLES_FILE \<mapsto> Present (Text (JArr example_vehicles))]
       ''42'' ''2024-05-01T10:00:00.000Z'' (JObj [''fee'' \<mapsto> JNum 75])
     = ([VEHICLES_FILE \<mapsto> Present (Text (JArr example_vehicles))],
        res_status_json 404 (error_body ''Vehicle not found''))
   \<and> put_vehicle_exit [VEHICLES_FILE \<mapsto> Present (Text (JArr example_vehicles))]
       ''1700000360000'' ''2024-05-01T10:00:00.000Z'' (JObj [''fee'' \<mapsto> JNum 75])
     = ([VEHICLES_FILE \<mapsto> Present (Text (JArr
           [JObj [''id'' \<mapsto> JStr ''1700000000000'', ''plate'' \<mapsto> JStr ''LEA-1234''],
            JObj [''id'' \<mapsto> JStr ''1700000360000'', ''plate'' \<mapsto> JStr ''KHI-77'',
                  ''exitTime'' \<mapsto> JStr ''2024-05-01T10:00:00.000Z'', ''fee'' \<mapsto> JNum 75]]))],
        res_json (JObj [''id'' \<mapsto> JStr ''1700000360000'', ''plate'' \<mapsto> JStr ''KHI-77'',
                  ''exitTime'' \<mapsto> JStr ''2024-05-01T10:00:00.000Z'', ''fee'' \<mapsto> JNum 75]))"
proof -
  let ?d = "[VEHICLES_FILE \<mapsto> Present (Text (JArr example_vehicles))]"
  let ?now = "''2024-05-01T10:00:00.000Z''"
  let ?body = "JObj [''fee'' \<mapsto> JNum 75]"
  have stored: "?d VEHICLES_FILE = Some (Present (Text (JArr example_vehicles)))"
    by simp
  have records: "JNull \<notin> set example_vehicles"
    by (simp add: example_vehicles_def)
  have body: "is_body ?body"
    by simp
  note exit = vehicle_exit [where d = ?d and vs = example_vehicles and body = ?body,
      OF stored records body]
  have unknown: "\<forall>v\<in>set example_vehicles. field v ''id'' \<noteq> Some (JStr ''42'')"
    by (simp add: example_vehicles_def field_def)
  have known: "\<exists>v\<in>set example_vehicles. field v ''id'' = Some (JStr ''1700000360000'')"
    by (simp add: example_vehicles_def field_def)
  from exit [of "''1700000360000''" ?now] known
  obtain i r where i: "i < length example_vehicles" "example_vehicles ! i = JObj r"
      "r ''id'' = Some (JStr ''1700000360000'')"
    and result: "put_vehicle_exit ?d ''1700000360000'' ?now ?body
      = (?d(VEHICLES_FILE \<mapsto> Present (Text (JArr (example_vehicles[i := JObj
             (r(''exitTime'' \<mapsto> JStr ?now, ''fee'' := field ?body ''fee''))])))),
         res_json (JObj (r(''exitTime'' \<mapsto> JStr ?now, ''fee'' := field ?body ''fee''))))"
    by blast
  from i have "i = 1 \<and> r = [''id'' \<mapsto> JStr ''1700000360000'', ''plate'' \<mapsto> JStr ''KHI-77'']"
    by (cases i) (auto simp: example_vehicles_def)
  with result have "put_vehicle_exit ?d ''1700000360000'' ?now ?body
     = ([VEHICLES_FILE \<mapsto> Present (Text (JArr
           [JObj [''id'' \<mapsto> JStr ''1700000000000'', ''plate'' \<mapsto> JStr ''LEA-1234''],
            JObj [''id'' \<mapsto> JStr ''1700000360000'', ''plate'' \<mapsto> JStr ''KHI-77'',
                  ''exitTime'' \<mapsto> JStr ?now, ''fee'' \<mapsto> JNum 75]]))],
        res_json (JObj [''id'' \<mapsto> JStr ''1700000360000'', ''plate'' \<mapsto> JStr ''KHI-77'',
                  ''exitTime'' \<mapsto> JStr ?now, ''fee'' \<mapsto> JNum 75]))"
    by (simp add: example_vehicles_def field_def)
  moreover from exit [of "''42''" ?now] unknown
  have "put_vehicle_exit ?d ''42'' ?now ?body
      = (?d, res_status_json 404 (error_body ''Vehicle not found''))"
    by blast
  ultimately show ?thesis
    by simp
qed

text \<open>
  Claim C9. For a clients collection and a payload object: when no record has the
  identifier the update answers 404 and changes nothing; otherwise the first record
  \<open>r\<close> with the identifier is replaced by the shallow merge \<open>r ++ patch\<close>, in which a
  property missing from the payload keeps its value and a property of the payload has
  the payload's value; the response is the merged record.
\<close>

theorem permanent_client_update:
  assumes stored: "d PERMANENT_CLIENTS_FILE = Some (Present (Text (JArr cs)))"
    and records: "JNull \<notin> set cs"
    and body: "body = JObj patch"
  shows "((\<forall>c\<in>set cs. field c ''id'' \<noteq> Some (JStr ident)) \<longrightarrow>
            put_permanent_client d ident body
            = (d, res_status_json 404 (error_body ''Client not found'')))
     \<and> ((\<exists>c\<in>set cs. field c ''id'' = Some (JStr ident)) \<longrightarrow>
          (\<exists>i r. i < length cs \<and> cs ! i = JObj r \<and> r ''id'' = Some (JStr ident)
             \<and> (\<forall>j<i. field (cs ! j) ''id'' \<noteq> Some (JStr ident))
             \<and> put_permanent_client d ident body
               = (d(PERMANENT_CLIENTS_FILE \<mapsto> Present (Text (JArr (cs[i := JObj (r ++ patch)])))),
                  res_json (JObj (r ++ patch)))
             \<and> (\<forall>k. patch k = None \<longrightarrow> (r ++ patch) k = r k)
             \<and> (\<forall>k v. patch k = Some v \<longrightarrow> (r ++ patch) k = Some v)))"
proof -
  have read: "readJsonFile d PERMANENT_CLIENTS_FILE (JArr []) = (Inr (JArr cs), d)"
    using stored by (rule readJsonFile_Text)
  have wr: "writeJsonFile d PERMANENT_CLIENTS_FILE v
      = (Inr (), d(PERMANENT_CLIENTS_FILE \<mapsto> Present (Text v)))"
    for v using stored by (rule writeJsonFile_Present)
  from findIndex_has_id [OF records, of ident] show ?thesis
  proof
    assume "(\<forall>c\<in>set cs. field c ''id'' \<noteq> Some (JStr ident))
        \<and> findIndex (has_id ident) cs = Inr None"
    then show ?thesis
      by (auto simp: put_permanent_client_def read)
  next
    assume "\<exists>i<length cs. field (cs ! i) ''id'' = Some (JStr ident)
        \<and> (\<forall>j<i. field (cs ! j) ''id'' \<noteq> Some (JStr ident))
        \<and> findIndex (has_id ident) cs = Inr (Some i)"
    then obtain i where i: "i < length cs" "field (cs ! i) ''id'' = Some (JStr ident)"
      "\<forall>j<i. field (cs ! j) ''id'' \<noteq> Some (JStr ident)"
      "findIndex (has_id ident) cs = Inr (Some i)"
      by blast
    from i(2) obtain r where r: "cs ! i = JObj r" "r ''id'' = Some (JStr ident)"
      by (blast dest: field_Some_obj)
    have kept: "\<forall>k. patch k = None \<longrightarrow> (r ++ patch) k = r k"
      by (simp add: map_add_def)
    have overwritten: "\<forall>k v. patch k = Some v \<longrightarrow> (r ++ patch) k = Some v"
      by simp
    have "put_permanent_client d ident body
        = (d(PERMANENT_CLIENTS_FILE \<mapsto> Present (Text (JArr (cs[i := JObj (r ++ patch)])))),
           res_json (JObj (r ++ patch)))"
      by (simp add: put_permanent_client_def read i(4) r(1) body wr Let_def)
    with i(1,3) r kept overwritten
    have found: "\<exists>i r. i < length cs \<and> cs ! i = JObj r \<and> r ''id'' = Some (JStr ident)
             \<and> (\<forall>j<i. field (cs ! j) ''id'' \<noteq> Some (JStr ident))
             \<and> put_permanent_client d ident body
               = (d(PERMANENT_CLIENTS_FILE \<mapsto> Present (Text (JArr (cs[i := JObj (r ++ patch)])))),
                  res_json (JObj (r ++ patch)))
             \<and> (\<forall>k. patch k = None \<longrightarrow> (r ++ patch) k = r k)
             \<and> (\<forall>k v. patch k = Some v \<longrightarrow> (r ++ patch) k = Some v)"
      by blast
    have "\<not> (\<forall>c\<in>set cs. field c ''id'' \<noteq> Some (JStr ident))"
      using i(1,2) nth_mem by blast
    with found show ?thesis
      by blast
  qed
qed

theorem permanent_client_update_witness:
  "put_permanent_client [PERMANENT_CLIENTS_FILE \<mapsto> Present (Text (JArr example_clients))]
       ''42'' (JObj [''paymentStatus'' \<mapsto> JStr ''paid''])
     = ([PERMANENT_CLIENTS_FILE \<mapsto> Present (Text (JArr example_clients))],
        res_status_json 404 (error_body ''Client not found''))
   \<and> put_permanent_client [PERMANENT_CLIENTS_FILE \<mapsto> Present (Text (JArr example_clients))]
       ''1700000000001'' (JObj [''paymentStatus'' \<mapsto> JStr ''paid''])
     = ([PERMANENT_CLIENTS_FILE \<mapsto> Present (Text (JArr
           [JObj [''id'' \<mapsto> JStr ''1700000000001'', ''name'' \<mapsto> JStr ''Asha'',
                  ''paymentStatus'' \<mapsto> JStr ''paid'']]))],
        res_json (JObj [''id'' \<mapsto> JStr ''1700000000001'', ''name'' \<mapsto> JStr ''Asha'',
                  ''paymentStatus'' \<mapsto> JStr ''paid'']))"
proof -
  let ?d = "[PERMANENT_CLIENTS_FILE \<mapsto> Present (Text (JArr example_clients))]"
  let ?patch = "[''paymentStatus'' \<mapsto> JStr ''paid'']"
  have stored: "?d PERMANENT_CLIENTS_FILE = Some (Present (Text (JArr example_clients)))"
    by simp
  have records: "JNull \<notin> set example_clients"
    by (simp add: example_clients_def)
  note update = permanent_client_update [where d = ?d and cs = example_clients
      and body = "JObj ?patch" and patch = ?patch, OF stored records refl]
  have unknown: "\<forall>c\<in>set example_clients. field c ''id'' \<noteq> Some (JStr ''42'')"
    by (simp add: example_clients_def field_def)
  have known: "\<exists>c\<in>set example_clients. field c ''id'' = Some (JStr ''1700000000001'')"
    by (simp add: example_clients_def field_def)
  from update [of "''1700000000001''"] known
  obtain i r where i: "i < length example_clients" "example_clients ! i = JObj r"
    and result: "put_permanent_client ?d ''1700000000001'' (JObj ?patch)
      = (?d(PERMANENT_CLIENTS_FILE \<mapsto> Present (Text (JArr (example_clients[i := JObj (r ++ ?patch)])))),
         res_json (JObj (r ++ ?patch)))"
    by blast
  from i have "i = 0 \<and> r = [''id'' \<mapsto> JStr ''1700000000001'', ''name'' \<mapsto> JStr ''Asha'',
                  ''paymentStatus'' \<mapsto> JStr ''unpaid'']"
    by (auto simp: example_clients_def)
  with result have "put_permanent_client ?d ''1700000000001'' (JObj ?patch)
     = ([PERMANENT_CLIENTS_FILE \<mapsto> Present (Text (JArr
           [JObj [''id'' \<mapsto> JStr ''1700000000001'', ''name'' \<mapsto> JStr ''Asha'',
                  ''paymentStatus'' \<mapsto> JStr ''paid'']]))],
        res_json (JObj [''id'' \<mapsto> JStr ''1700000000001'', ''name'' \<mapsto> JStr ''Asha'',
                  ''paymentStatus'' \<mapsto> JStr ''paid'']))"
    by (simp add: example_clients_def)
  moreover from update [of "''42''"] unknown
  have "put_permanent_client ?d ''42'' (JObj ?patch)
      = (?d, res_status_json 404 (error_body ''Client not found''))"
    by blast
  ultimately show ?thesis
    by simp
qed

section \<open>Properties of the daily statistics\<close>

lemma same_date_field:
  assumes "field body ''date'' = Some (JStr dt)" and "s \<noteq> JNull"
  shows "same_date body s = Inr (field s ''date'' = Some (JStr dt))"
proof -
  from assms(1) have "body \<noteq> JNull"
    by (auto simp: field_def)
  then show ?thesis
    using assms by (simp add: same_date_def get_prop_field strict_eq_string)
qed

lemma post_daily_stats_array:
  assumes stored: "d DAILY_STATS_FILE = Some (Present (Text (JArr xs)))"
    and records: "JNull \<notin> set xs"
    and posted: "field body ''date'' = Some (JStr dt)"
  shows "(\<forall>s\<in>set xs. field s ''date'' \<noteq> Some (JStr dt))
       \<and> post_daily_stats d body
         = (d(DAILY_STATS_FILE \<mapsto> Present (Text (JArr (xs @ [body])))), res_json body)
     \<or> (\<exists>i<length xs. field (xs ! i) ''date'' = Some (JStr dt)
          \<and> (\<forall>j<i. field (xs ! j) ''date'' \<noteq> Some (JStr dt))
          \<and> post_daily_stats d body
            = (d(DAILY_STATS_FILE \<mapsto> Present (Text (JArr (xs[i := body])))), res_json body))"
proof -
  have read: "readJsonFile d DAILY_STATS_FILE (JArr []) = (Inr (JArr xs), d)"
    using stored by (rule readJsonFile_Text)
  have wr: "writeJsonFile d DAILY_STATS_FILE v
      = (Inr (), d(DAILY_STATS_FILE \<mapsto> Present (Text v)))"
    for v using stored by (rule writeJsonFile_Present)
  have "\<forall>s\<in>set xs. same_date body s = Inr (field s ''date'' = Some (JStr dt))"
    using records posted by (auto intro: same_date_field)
  from findIndex_cases [OF this] show ?thesis
  proof
    assume "(\<forall>s\<in>set xs. field s ''date'' \<noteq> Some (JStr dt))
        \<and> findIndex (same_date body) xs = Inr None"
    then show ?thesis
      by (simp add: post_daily_stats_def read wr Let_def)
  next
    assume "\<exists>i<length xs. field (xs ! i) ''date'' = Some (JStr dt)
        \<and> (\<forall>j<i. field (xs ! j) ''date'' \<noteq> Some (JStr dt))
        \<and> findIndex (same_date body) xs = Inr (Some i)"
    then obtain i where "i < length xs" "field (xs ! i) ''date'' = Some (JStr dt)"
      "\<forall>j<i. field (xs ! j) ''date'' \<noteq> Some (JStr dt)"
      "findIndex (same_date body) xs = Inr (Some i)"
      by blast
    moreover from this(4) have "post_daily_stats d body
        = (d(DAILY_STATS_FILE \<mapsto> Present (Text (JArr (xs[i := body])))), res_json body)"
      by (simp add: post_daily_stats_def read wr Let_def)
    ultimately show ?thesis
      by blast
  qed
qed

lemma records_for_update:
  assumes "i < length xs" and "field (xs ! i) ''date'' = Some (JStr dt)"
    and "field b ''date'' = Some (JStr dt)"
  shows "length (records_for dt (xs[i := b])) = length (records_for dt xs)"
proof -
  let ?P = "\<lambda>s. field s ''date'' = Some (JStr dt)"
  have "map ?P (xs[i := b]) = map ?P xs"
    using assms by (simp add: map_update list_update_same_conv)
  then have "length (filter id (map ?P (xs[i := b]))) = length (filter id (map ?P xs))"
    by simp
  then show ?thesis
    by (simp add: records_for_def filter_map comp_def)
qed

lemma stat_dates:
  "field stat_a ''date'' = Some (JStr ''2024-05-01'')"
  "field stat_b ''date'' = Some (JStr ''2024-05-01'')"
  "field stat_c ''date'' = Some (JStr ''2024-05-02'')"
  "stat_a \<noteq> JNull" "stat_b \<noteq> JNull" "stat_c \<noteq> JNull"
  by (simp_all add: stat_a_def stat_b_def stat_c_def field_def)

text \<open>
  Claim C7, as amended. For a daily-stats collection (an array whose records are not
  null) and a posted record with a string date: when some record has that date, the
  first such record is replaced by the posted one, every other position is as before,
  and the number of records for that date is what it was (exactly one when it was
  one); when no record has that date, the posted record is appended; and after two posts
  with different dates both posted records are in the collection.
\<close>

theorem daily_stats_upsert:
  assumes stored: "d DAILY_STATS_FILE = Some (Present (Text (JArr xs)))"
    and records: "JNull \<notin> set xs"
    and posted: "field body ''date'' = Some (JStr dt)"
  shows "((\<exists>s\<in>set xs. field s ''date'' = Some (JStr dt)) \<longrightarrow>
          (\<exists>i<length xs. field (xs ! i) ''date'' = Some (JStr dt)
             \<and> (\<forall>j<i. field (xs ! j) ''date'' \<noteq> Some (JStr dt))
             \<and> post_daily_stats d body
               = (d(DAILY_STATS_FILE \<mapsto> Present (Text (JArr (xs[i := body])))), res_json body)
             \<and> length (records_for dt (xs[i := body])) = length (records_for dt xs)))
     \<and> ((\<forall>s\<in>set xs. field s ''date'' \<noteq> Some (JStr dt)) \<longrightarrow>
          post_daily_stats d body
          = (d(DAILY_STATS_FILE \<mapsto> Present (Text (JArr (xs @ [body])))), res_json body))
     \<and> (field body' ''date'' = Some (JStr dt') \<and> dt' \<noteq> dt \<longrightarrow>
          (\<exists>ys. fst (post_daily_stats (fst (post_daily_stats d body)) body') DAILY_STATS_FILE
                  = Some (Present (Text (JArr ys)))
             \<and> body \<in> set ys \<and> body' \<in> set ys))"
proof (intro conjI impI)
  note first = post_daily_stats_array [where d = d and xs = xs, OF stored records posted]
  {
    assume "\<exists>s\<in>set xs. field s ''date'' = Some (JStr dt)"
    with first obtain i where i: "i < length xs" "field (xs ! i) ''date'' = Some (JStr dt)"
      "\<forall>j<i. field (xs ! j) ''date'' \<noteq> Some (JStr dt)"
      "post_daily_stats d body
        = (d(DAILY_STATS_FILE \<mapsto> Present (Text (JArr (xs[i := body])))), res_json body)"
      by blast
    moreover have "length (records_for dt (xs[i := body])) = length (records_for dt xs)"
      using i(1,2) posted by (rule records_for_update)
    ultimately show "\<exists>i<length xs. field (xs ! i) ''date'' = Some (JStr dt)
             \<and> (\<forall>j<i. field (xs ! j) ''date'' \<noteq> Some (JStr dt))
             \<and> post_daily_stats d body
               = (d(DAILY_STATS_FILE \<mapsto> Present (Text (JArr (xs[i := body])))), res_json body)
             \<and> length (records_for dt (xs[i := body])) = length (records_for dt xs)"
      by blast
  }
  {
    assume "\<forall>s\<in>set xs. field s ''date'' \<noteq> Some (JStr dt)"
    with first show "post_daily_stats d body
          = (d(DAILY_STATS_FILE \<mapsto> Present (Text (JArr (xs @ [body])))), res_json body)"
      using nth_mem by blast
  }
  {
    assume second: "field body' ''date'' = Some (JStr dt') \<and> dt' \<noteq> dt"
    from posted have body: "body \<noteq> JNull"
      by (auto simp: field_def)
    from first obtain ys where ys: "fst (post_daily_stats d body) DAILY_STATS_FILE
        = Some (Present (Text (JArr ys)))" "body \<in> set ys" "JNull \<notin> set ys"
    proof
      assume "(\<forall>s\<in>set xs. field s ''date'' \<noteq> Some (JStr dt))
       \<and> post_daily_stats d body
         = (d(DAILY_STATS_FILE \<mapsto> Present (Text (JArr (xs @ [body])))), res_json body)"
      with records body show ?thesis
        by (intro that [of "xs @ [body]"]) auto
    next
      assume "\<exists>i<length xs. field (xs ! i) ''date'' = Some (JStr dt)
          \<and> (\<forall>j<i. field (xs ! j) ''date'' \<noteq> Some (JStr dt))
          \<and> post_daily_stats d body
            = (d(DAILY_STATS_FILE \<mapsto> Present (Text (JArr (xs[i := body])))), res_json body)"
      then obtain i where "i < length xs" "post_daily_stats d body
            = (d(DAILY_STATS_FILE \<mapsto> Present (Text (JArr (xs[i := body])))), res_json body)"
        by blast
      with records body show ?thesis
        by (intro that [of "xs[i := body]"]) (auto simp: set_update_memI dest: set_update_subset_insert [THEN subsetD])
    qed
    from second have posted': "field body' ''date'' = Some (JStr dt')"
      by simp
    from post_daily_stats_array [where d = "fst (post_daily_stats d body)" and xs = ys,
        OF ys(1) ys(3) posted']
    show "\<exists>ys. fst (post_daily_stats (fst (post_daily_stats d body)) body') DAILY_STATS_FILE
                  = Some (Present (Text (JArr ys)))
             \<and> body \<in> set ys \<and> body' \<in> set ys"
    proof
      assume "(\<forall>s\<in>set ys. field s ''date'' \<noteq> Some (JStr dt'))
       \<and> post_daily_stats (fst (post_daily_stats d body)) body'
         = ((fst (post_daily_stats d body))(DAILY_STATS_FILE \<mapsto> Present (Text (JArr (ys @ [body'])))),
            res_json body')"
      with ys(2) show ?thesis
        by (intro exI [of _ "ys @ [body']"]) simp
    next
      assume "\<exists>i<length ys. field (ys ! i) ''date'' = Some (JStr dt')
          \<and> (\<forall>j<i. field (ys ! j) ''date'' \<noteq> Some (JStr dt'))
          \<and> post_daily_stats (fst (post_daily_stats d body)) body'
            = ((fst (post_daily_stats d body))(DAILY_STATS_FILE \<mapsto> Present (Text (JArr (ys[i := body'])))),
               res_json body')"
      then obtain i where i: "i < length ys" "field (ys ! i) ''date'' = Some (JStr dt')"
        "post_daily_stats (fst (post_daily_stats d body)) body'
            = ((fst (post_daily_stats d body))(DAILY_STATS_FILE \<mapsto> Present (Text (JArr (ys[i := body'])))),
               res_json body')"
        by blast
      from ys(2) obtain k where k: "k < length ys" "ys ! k = body"
        by (auto simp: in_set_conv_nth)
      with i(2) posted second have "k \<noteq> i"
        by auto
      with k have "body \<in> set (ys[i := body'])"
        by (metis length_list_update nth_list_update_neq nth_mem)
      moreover have "body' \<in> set (ys[i := body'])"
        using i(1) by (simp add: set_update_memI)
      ultimately show ?thesis
        using i(3) by (intro exI [of _ "ys[i := body']"]) simp
    qed
  }
qed

theorem daily_stats_upsert_witness:
  "post_daily_stats [DAILY_STATS_FILE \<mapsto> Present (Text (JArr [stat_c, stat_a]))] stat_b
     = ([DAILY_STATS_FILE \<mapsto> Present (Text (JArr [stat_c, stat_b]))], res_json stat_b)
   \<and> length (records_for ''2024-05-01'' [stat_c, stat_b]) = 1
   \<and> post_daily_stats [DAILY_STATS_FILE \<mapsto> Present (Text (JArr [stat_a]))] stat_c
     = ([DAILY_STATS_FILE \<mapsto> Present (Text (JArr [stat_a, stat_c]))], res_json stat_c)
   \<and> (\<exists>ys. fst (post_daily_stats (fst (post_daily_stats
              [DAILY_STATS_FILE \<mapsto> Present (Text (JArr []))] stat_a)) stat_c) DAILY_STATS_FILE
            = Some (Present (Text (JArr ys)))
          \<and> stat_a \<in> set ys \<and> stat_c \<in> set ys)"
proof -
  let ?d = "[DAILY_STATS_FILE \<mapsto> Present (Text (JArr [stat_c, stat_a]))]"
  have known: "\<exists>s\<in>set [stat_c, stat_a]. field s ''date'' = Some (JStr ''2024-05-01'')"
    by (simp add: stat_dates)
  have stored: "?d DAILY_STATS_FILE = Some (Present (Text (JArr [stat_c, stat_a])))"
    by simp
  have records: "JNull \<notin> set [stat_c, stat_a]"
    using stat_dates by auto
  from daily_stats_upsert [where d = ?d and xs = "[stat_c, stat_a]" and body = stat_b
      and dt = "''2024-05-01''", OF stored records stat_dates(2)] known
  obtain i where i: "i < length [stat_c, stat_a]"
      "field ([stat_c, stat_a] ! i) ''date'' = Some (JStr ''2024-05-01'')"
    and result: "post_daily_stats ?d stat_b
      = (?d(DAILY_STATS_FILE \<mapsto> Present (Text (JArr ([stat_c, stat_a][i := stat_b])))),
         res_json stat_b)"
    and count: "length (records_for ''2024-05-01'' ([stat_c, stat_a][i := stat_b]))
      = length (records_for ''2024-05-01'' [stat_c, stat_a])"
    by blast
  from i have "i = 1"
    by (cases i) (auto simp: stat_dates)
  with result count have replaced: "post_daily_stats ?d stat_b
     = ([DAILY_STATS_FILE \<mapsto> Present (Text (JArr [stat_c, stat_b]))], res_json stat_b)
   \<and> length (records_for ''2024-05-01'' [stat_c, stat_b]) = 1"
    by (simp add: records_for_def stat_dates)
  let ?e = "[DAILY_STATS_FILE \<mapsto> Present (Text (JArr [stat_a]))]"
  have unknown: "\<forall>s\<in>set [stat_a]. field s ''date'' \<noteq> Some (JStr ''2024-05-02'')"
    by (simp add: stat_dates)
  have stored': "?e DAILY_STATS_FILE = Some (Present (Text (JArr [stat_a])))"
    by simp
  have records': "JNull \<notin> set [stat_a]"
    using stat_dates by auto
  from daily_stats_upsert [where d = ?e and xs = "[stat_a]" and body = stat_c
      and dt = "''2024-05-02''", OF stored' records' stat_dates(3)] unknown
  have "post_daily_stats ?e stat_c
     = (?e(DAILY_STATS_FILE \<mapsto> Present (Text (JArr ([stat_a] @ [stat_c])))), res_json stat_c)"
    by blast
  then have appended: "post_daily_stats ?e stat_c
     = ([DAILY_STATS_FILE \<mapsto> Present (Text (JArr [stat_a, stat_c]))], res_json stat_c)"
    by simp
  let ?f = "[DAILY_STATS_FILE \<mapsto> Present (Text (JArr []))]"
  have stored'': "?f DAILY_STATS_FILE = Some (Present (Text (JArr [])))"
    by simp
  have records'': "JNull \<notin> set []"
    by simp
  have different: "field stat_c ''date'' = Some (JStr ''2024-05-02'') \<and> ''2024-05-02'' \<noteq> ''2024-05-01''"
    by (simp add: stat_dates)
  from daily_stats_upsert [where d = ?f and xs = "[]" and body = stat_a
      and dt = "''2024-05-01''" and body' = stat_c and dt' = "''2024-05-02''",
      OF stored'' records'' stat_dates(1)] different
  have both: "\<exists>ys. fst (post_daily_stats (fst (post_daily_stats ?f stat_a)) stat_c) DAILY_STATS_FILE
            = Some (Present (Text (JArr ys)))
          \<and> stat_a \<in> set ys \<and> stat_c \<in> set ys"
    by blast
  from replaced appended both show ?thesis
    by blast
qed

text \<open>
  The claim as stated fails on a collection that already has two records for the date,
  as a backup save can install: the post replaces the first and the second remains.
\<close>

theorem daily_stats_upsert_duplicates_counterexample:
  "fst (post_backup None Map.empty (JObj [''dailyStats'' \<mapsto> JArr [stat_a, stat_b]])) DAILY_STATS_FILE
     = Some (Present (Text (JArr [stat_a, stat_b])))
   \<and> post_daily_stats [DAILY_STATS_FILE \<mapsto> Present (Text (JArr [stat_a, stat_b]))]
        (JObj [''date'' \<mapsto> JStr ''2024-05-01'', ''income'' \<mapsto> JNum 300])
     = ([DAILY_STATS_FILE \<mapsto> Present (Text (JArr
           [JObj [''date'' \<mapsto> JStr ''2024-05-01'', ''income'' \<mapsto> JNum 300], stat_b]))],
        res_json (JObj [''date'' \<mapsto> JStr ''2024-05-01'', ''income'' \<mapsto> JNum 300]))
   \<and> length (records_for ''2024-05-01''
        [JObj [''date'' \<mapsto> JStr ''2024-05-01'', ''income'' \<mapsto> JNum 300], stat_b]) = 2"
  by (simp add: post_backup_def write_live_files_def write_field_def writeJsonFile_def
      post_daily_stats_def readJsonFile_Text same_date_def strict_eq_def records_for_def
      stat_a_def stat_b_def field_def)

lemma findIndex_None_D:
  "findIndex p xs = Inr None \<Longrightarrow> \<forall>x\<in>set xs. p x = Inr False"
  by (induction xs) (auto split: sum.splits bool.splits option.splits)

lemma findIndex_Some_D:
  "findIndex p xs = Inr (Some i) \<Longrightarrow> i < length xs \<and> p (xs ! i) = Inr True"
  by (induction xs arbitrary: i) (auto split: sum.splits bool.splits option.splits)

lemma same_date_not_null: "same_date body s = Inr b \<Longrightarrow> s \<noteq> JNull"
  by (auto simp: same_date_def)

lemma same_date_True:
  "field body ''date'' = Some (JStr dt) \<Longrightarrow> same_date body s = Inr True \<Longrightarrow>
   field s ''date'' = Some (JStr dt)"
  using same_date_field [of body dt s] same_date_not_null [of body s True] by simp

lemma same_date_False:
  "field body ''date'' = Some (JStr dt) \<Longrightarrow> same_date body s = Inr False \<Longrightarrow>
   field s ''date'' \<noteq> Some (JStr dt)"
  using same_date_field [of body dt s] same_date_not_null [of body s False] by simp

lemma dates_update:
  assumes "i < length xs" and "field (xs ! i) ''date'' = field b ''date''"
  shows "dates (xs[i := b]) = dates xs"
proof -
  let ?f = "\<lambda>s. field s ''date''"
  have "map ?f (xs[i := b]) = (map ?f xs)[i := ?f b]"
    by (rule map_update)
  also have "\<dots> = map ?f xs"
    using assms by (metis list_update_id nth_map)
  finally show ?thesis
    by (simp add: dates_def)
qed

lemma dates_append:
  "field b ''date'' = Some v \<Longrightarrow> dates (xs @ [b]) = dates xs @ [v]"
  by (simp add: dates_def)

lemma set_dates: "v \<in> set (dates xs) \<longleftrightarrow> (\<exists>s\<in>set xs. field s ''date'' = Some v)"
  by (force simp: dates_def)

lemma post_daily_stats_invariant:
  assumes inv: "stats_invariant d" and posted: "has_string_date body"
  shows "stats_invariant (fst (post_daily_stats d body))"
proof -
  from posted obtain dt where dt: "field body ''date'' = Some (JStr dt)"
    by (auto simp: has_string_date_def split: option.splits json.splits)
  show ?thesis
  proof (cases "d DAILY_STATS_FILE")
    case None
    then have "fst (post_daily_stats d body) DAILY_STATS_FILE = Some (Present (Text (JArr [body])))"
      by (simp add: post_daily_stats_def readJsonFile_missing writeJsonFile_def)
    then show ?thesis
      using dt by (simp add: stats_invariant_def one_record_per_date_def dates_def)
  next
    case (Some n)
    have unchanged: ?thesis if "fst (post_daily_stats d body) = d"
      using that inv by simp
    show ?thesis
    proof (cases n)
      case (Faulty c)
      with Some have "fst (post_daily_stats d body) = d"
        by (simp add: post_daily_stats_def readJsonFile_def read_and_parse_def fs_readFile_def
            writeJsonFile_def)
      then show ?thesis by (rule unchanged)
    next
      case (Present cont)
      show ?thesis
      proof (cases cont)
        case Garbled
        with Some Present have "fst (post_daily_stats d body) = d"
          by (simp add: post_daily_stats_def readJsonFile_def read_and_parse_def fs_readFile_def
              JSON_parse_def)
        then show ?thesis by (rule unchanged)
      next
        case (Text doc)
        with Some Present have stored: "d DAILY_STATS_FILE = Some (Present (Text doc))"
          by simp
        have read: "readJsonFile d DAILY_STATS_FILE (JArr []) = (Inr doc, d)"
          using stored by (rule readJsonFile_Text)
        have wr: "writeJsonFile d DAILY_STATS_FILE v
            = (Inr (), d(DAILY_STATS_FILE \<mapsto> Present (Text v)))"
          for v using stored by (rule writeJsonFile_Present)
        show ?thesis
        proof (cases "as_array doc")
          case (Inl e)
          then have "fst (post_daily_stats d body) = d"
            by (simp add: post_daily_stats_def read)
          then show ?thesis by (rule unchanged)
        next
          case (Inr xs)
          then have doc: "doc = JArr xs"
            by (cases doc) simp_all
          from inv stored doc have distinct: "distinct (dates xs)"
            by (simp add: stats_invariant_def one_record_per_date_def)
          show ?thesis
          proof (cases "findIndex (same_date body) xs")
            case (Inl e)
            then have "fst (post_daily_stats d body) = d"
              by (simp add: post_daily_stats_def read Inr)
            then show ?thesis by (rule unchanged)
          next
            case found: (Inr r)
            show ?thesis
            proof (cases r)
              case None
              with found have "\<forall>s\<in>set xs. field s ''date'' \<noteq> Some (JStr dt)"
                using findIndex_None_D same_date_False [OF dt] by blast
              then have "JStr dt \<notin> set (dates xs)"
                by (simp add: set_dates)
              with distinct have "distinct (dates (xs @ [body]))"
                by (simp add: dates_append [OF dt])
              moreover have "fst (post_daily_stats d body) DAILY_STATS_FILE
                  = Some (Present (Text (JArr (xs @ [body]))))"
                using found None by (simp add: post_daily_stats_def read Inr wr Let_def)
              ultimately show ?thesis
                by (simp add: stats_invariant_def one_record_per_date_def)
            next
              case (Some i)
              with found have "i < length xs" "field (xs ! i) ''date'' = Some (JStr dt)"
                using findIndex_Some_D same_date_True [OF dt] by blast+
              then have "dates (xs[i := body]) = dates xs"
                using dt by (simp add: dates_update)
              moreover have "fst (post_daily_stats d body) DAILY_STATS_FILE
                  = Some (Present (Text (JArr (xs[i := body]))))"
                using found Some by (simp add: post_daily_stats_def read Inr wr Let_def)
              ultimately show ?thesis
                using distinct by (simp add: stats_invariant_def one_record_per_date_def)
            qed
          qed
        qed
      qed
    qed
  qed
qed

lemma write_field_cases:
  "snd (write_field d b f p) = d
   \<or> (\<exists>v. field b f = Some v \<and> snd (write_field d b f p) = d(p \<mapsto> Present (Text v)))"
  by (cases b)
     (auto simp: write_field_def writeJsonFile_def field_def split: option.splits node.splits)

lemma write_live_files_daily_stats:
  "snd (write_live_files d b) DAILY_STATS_FILE = d DAILY_STATS_FILE
   \<or> (\<exists>v. field b ''dailyStats'' = Some v
        \<and> snd (write_live_files d b) DAILY_STATS_FILE = Some (Present (Text v)))"
  (is "?P (snd (write_live_files d b))")
proof -
  have step: "?P (snd (case x of (Inl e, d') \<Rightarrow> (Inl e, d') | (Inr u, d') \<Rightarrow> k d'))"
    if "snd x DAILY_STATS_FILE = d DAILY_STATS_FILE"
      and "\<And>d'. d' DAILY_STATS_FILE = d DAILY_STATS_FILE \<Longrightarrow> ?P (snd (k d'))"
    for x :: "(exn + unit) \<times> disk" and k
    using that by (cases x) (auto split: sum.splits)
  have last: "?P (snd (write_field d' b ''dailyStats'' DAILY_STATS_FILE))"
    if "d' DAILY_STATS_FILE = d DAILY_STATS_FILE" for d'
    using write_field_cases [of d' b "''dailyStats''" DAILY_STATS_FILE] that by auto
  show ?thesis
    unfolding write_live_files_def
    by (intro step last) (simp_all add: write_field_other)
qed

lemma stats_invariant_cases:
  assumes "stats_invariant d"
    and "d' DAILY_STATS_FILE = d DAILY_STATS_FILE
       \<or> (\<exists>v. field b ''dailyStats'' = Some v \<and> d' DAILY_STATS_FILE = Some (Present (Text v)))"
    and "snapshot_ok b"
  shows "stats_invariant d'"
  using assms by (auto simp: stats_invariant_def snapshot_ok_def)

lemma post_backup_invariant:
  assumes inv: "stats_invariant d" and snapshot: "snapshot_ok b"
  shows "stats_invariant (fst (post_backup supabase d b))"
proof -
  let ?d0 = "snd (writeJsonFile d BACKUP_FILE b)"
  have d0: "?d0 DAILY_STATS_FILE = d DAILY_STATS_FILE"
    by (simp add: writeJsonFile_other)
  have "fst (post_backup supabase d b) = d \<or> fst (post_backup supabase d b) = snd (write_live_files ?d0 b)"
    by (cases "writeJsonFile d BACKUP_FILE b"; cases "write_live_files ?d0 b")
       (auto simp: post_backup_def writeJsonFile_def split: sum.splits option.splits node.splits)
  then show ?thesis
  proof
    assume "fst (post_backup supabase d b) = d"
    with inv show ?thesis by simp
  next
    assume "fst (post_backup supabase d b) = snd (write_live_files ?d0 b)"
    with write_live_files_daily_stats [of ?d0 b] d0 show ?thesis
      by (intro stats_invariant_cases [OF inv _ snapshot]) auto
  qed
qed

lemma startup_restore_invariant:
  assumes inv: "stats_invariant d" and ok: "event_ok (StartupRestore supabase)"
  shows "stats_invariant (startup_restore supabase d)"
proof (cases "ok (downloadBackupFromSupabase supabase) \<and> truthy_opt (data (downloadBackupFromSupabase supabase))")
  case False
  then have "startup_restore supabase d = d"
    by (auto simp: startup_restore_def Let_def)
  with inv show ?thesis by simp
next
  case True
  then obtain b where b: "data (downloadBackupFromSupabase supabase) = Some b"
    by (cases "data (downloadBackupFromSupabase supabase)") auto
  with True have "snapshot_ok b"
    using ok
    by (auto simp: downloadBackupFromSupabase_def split: option.splits download_reply.splits if_splits)
  let ?d1 = "snd (write_live_files d b)"
  have "startup_restore supabase d = ?d1
      \<or> startup_restore supabase d = snd (writeJsonFile ?d1 BACKUP_FILE b)"
    using True b by (cases "write_live_files d b") (auto simp: startup_restore_def Let_def split: sum.splits)
  then have "startup_restore supabase d DAILY_STATS_FILE = ?d1 DAILY_STATS_FILE"
    by (auto simp: writeJsonFile_other)
  with write_live_files_daily_stats [of d b] show ?thesis
    by (intro stats_invariant_cases [OF inv _ \<open>snapshot_ok b\<close>]) auto
qed

lemma step_invariant: "stats_invariant d \<Longrightarrow> event_ok e \<Longrightarrow> stats_invariant (step d e)"
  by (cases e) (simp_all add: post_daily_stats_invariant post_backup_invariant startup_restore_invariant)

text \<open>
  Claim C8, as amended. From a data directory with at most one record per date, every
  run of daily-stats posts, backup saves and startup restores leads to a directory with
  at most one record per date, provided every posted record has a string date and every
  snapshot saved or restored has itself at most one record per date in its
  \<^verbatim>\<open>dailyStats\<close>. The server checks neither.
\<close>

theorem daily_stats_one_record_per_date:
  "stats_invariant d \<Longrightarrow> \<forall>e\<in>set es. event_ok e \<Longrightarrow> stats_invariant (foldl step d es)"
  by (induction es arbitrary: d) (simp_all add: step_invariant)

theorem daily_stats_one_record_per_date_witness:
  "stats_invariant (foldl step Map.empty
      [StartupRestore None, DailyStatsPost stat_a, DailyStatsPost stat_b,
       BackupSave None example_snapshot, DailyStatsPost stat_c])
   \<and> foldl step Map.empty
      [StartupRestore None, DailyStatsPost stat_a, DailyStatsPost stat_b,
       BackupSave None example_snapshot, DailyStatsPost stat_c] DAILY_STATS_FILE
     = Some (Present (Text (JArr
         [JObj [''date'' \<mapsto> JStr ''2024-05-01'', ''income'' \<mapsto> JNum 150], stat_c])))"
proof -
  let ?es = "[StartupRestore None, DailyStatsPost stat_a, DailyStatsPost stat_b,
       BackupSave None example_snapshot, DailyStatsPost stat_c]"
  have start: "stats_invariant Map.empty"
    by (simp add: stats_invariant_def)
  have posts: "has_string_date stat_a" "has_string_date stat_b" "has_string_date stat_c"
    by (simp_all add: has_string_date_def stat_dates)
  have snapshot: "snapshot_ok example_snapshot"
    by (simp add: snapshot_ok_def example_snapshot_def field_def one_record_per_date_def
        dates_def)
  have events: "\<forall>e\<in>set ?es. event_ok e"
    by (simp add: posts snapshot)
  have content: "foldl step Map.empty ?es DAILY_STATS_FILE
     = Some (Present (Text (JArr
         [JObj [''date'' \<mapsto> JStr ''2024-05-01'', ''income'' \<mapsto> JNum 150], stat_c])))"
    by (simp add: startup_restore_def downloadBackupFromSupabase_def post_daily_stats_def
        readJsonFile_def read_and_parse_def fs_readFile_def JSON_parse_def writeJsonFile_def
        same_date_def strict_eq_def post_backup_def write_live_files_def write_field_def
        stat_a_def stat_b_def stat_c_def example_snapshot_def)
  show ?thesis
    using daily_stats_one_record_per_date [OF start events] content
    by simp
qed

text \<open>
  The claim as stated fails: a backup save whose \<^verbatim>\<open>dailyStats\<close> has two records for one
  date writes them to the daily-stats file as they are.
\<close>

theorem backup_save_duplicate_dates_counterexample:
  "\<not> stats_invariant
       (fst (post_backup None Map.empty (JObj [''dailyStats'' \<mapsto> JArr [stat_a, stat_b]])))"
  by (simp add: post_backup_def write_live_files_def write_field_def writeJsonFile_def
      stats_invariant_def one_record_per_date_def dates_def stat_a_def stat_b_def field_def)

end
